theory Spec2Isabelle
  imports Complex_Main "HOL-Library.Word" "HOL-Library.AList"
begin

unbundle bit_operations_syntax

section \<open>The GTK platform layer of SolveSpace (src/platform/guigtk.cpp)\<close>

text \<open>
  The file binds the application's toolkit-neutral interfaces (Settings, MenuItem,
  Window, MessageDialog) to GTK and json-c. The model below follows the member functions
  of the file one by one. What the file calls but does not define is modelled at its
  documented interface:
  \<^item> json-c: a JSON object is an insertion-ordered table from C strings to values;
  \<^item> libc: \<open>getenv\<close>, \<open>stat\<close>, \<open>mkdir\<close> answer through a record of the system's replies;
  \<^item> GTK: a widget is the record of the state its accessors return.
  A \<open>double\<close> is only stored, copied and compared with zero here, so it is a type
  parameter \<open>'d\<close>. An \<open>int\<close> or \<open>uint32_t\<close> is a \<open>32 word\<close>: the conversions between
  the two keep the bits.
\<close>

subsection \<open>C strings\<close>

text \<open>
  \<open>s.c_str()\<close> hands a \<open>const char *\<close> to a C interface, which reads up to the first
  NUL character. A \<open>std::string\<close> may hold NUL characters; what the C side sees is the
  prefix before the first one.
\<close>

definition c_str :: "string \<Rightarrow> string" where
  "c_str s = takeWhile (\<lambda>c. c \<noteq> CHR 0x00) s"

subsection \<open>Utility functions\<close>

definition PrepareMnemonics :: "string \<Rightarrow> string" where
  "PrepareMnemonics label = map (\<lambda>c. if c = CHR ''&'' then CHR ''_'' else c) label"

subsection \<open>Fatal errors and exceptions\<close>

text \<open>
  \<open>ssassert(cond, message)\<close> aborts the program with the message when the condition is
  false; it is never compiled out. Building a \<open>std::string\<close> from a null pointer throws
  \<open>std::logic_error\<close>. An operation that can do either returns \<open>error + 'a\<close>.
\<close>

datatype error = AssertFailure string | LogicError

subsection \<open>json-c values\<close>

text \<open>
  A JSON value as json-c holds it. The JSON value \<open>null\<close> is json-c's \<open>NULL\<close> pointer.
  An object keeps its entries in insertion order, at most one per key.
\<close>

datatype 'd json_object =
    JNull
  | JBoolean bool
  | JDouble 'd
  | JInt int
  | JString string
  | JArray "'d json_object list"
  | JObject "(string \<times> 'd json_object) list"

definition is_object :: "'d json_object \<Rightarrow> bool" where
  "is_object jso = (case jso of JObject entries \<Rightarrow> True | _ \<Rightarrow> False)"

definition json_object_new_object :: "'d json_object" where
  "json_object_new_object = JObject []"

text \<open>
  \<open>json_object_new_int\<close> takes an \<open>int32_t\<close>, here its bit pattern, and stores the signed
  number.
\<close>

definition json_object_new_int :: "32 word \<Rightarrow> 'd json_object" where
  "json_object_new_int i = JInt (sint i)"

definition json_object_new_boolean :: "bool \<Rightarrow> 'd json_object" where
  "json_object_new_boolean b = JBoolean b"

definition json_object_new_double :: "'d \<Rightarrow> 'd json_object" where
  "json_object_new_double d = JDouble d"

text \<open>\<open>json_object_new_string\<close> copies the C string it is given.\<close>

definition json_object_new_string :: "string \<Rightarrow> 'd json_object" where
  "json_object_new_string s = JString s"

text \<open>
  What json-c does where this file does not pin it down is a parameter of the model:
  the getters' conversions of a value of another type (parsing strings, truncating
  doubles, printing JSON text), and what \<open>json_object_object_add\<close> makes of a value that
  is not an object (the file never checks the type of its document).
\<close>

record 'd json_c =
  other_to_int :: "'d json_object \<Rightarrow> 32 word"
  other_to_boolean :: "'d json_object \<Rightarrow> bool"
  other_to_double :: "'d json_object \<Rightarrow> 'd"
  other_to_string :: "'d json_object \<Rightarrow> string"
  object_add_other :: "'d json_object \<Rightarrow> string \<Rightarrow> 'd json_object \<Rightarrow> 'd json_object"

text \<open>
  On an object, \<open>json_object_object_add\<close> replaces the value of a key that is present, in
  place, and appends the entry otherwise.
\<close>

definition json_object_object_add ::
  "'d json_c \<Rightarrow> 'd json_object \<Rightarrow> string \<Rightarrow> 'd json_object \<Rightarrow> 'd json_object" where
  "json_object_object_add jc jso key val =
     (case jso of
        JObject entries \<Rightarrow> JObject (AList.update key val entries)
      | _ \<Rightarrow> object_add_other jc jso key val)"

text \<open>
  \<open>json_object_object_get_ex\<close> returns whether the key is present, and the value through
  its last argument; on a value that is not an object it returns false.
\<close>

definition json_object_object_get_ex ::
  "'d json_object \<Rightarrow> string \<Rightarrow> 'd json_object option" where
  "json_object_object_get_ex jso key =
     (case jso of JObject entries \<Rightarrow> map_of entries key | _ \<Rightarrow> None)"

text \<open>
  The getters return the stored value when it has the type asked for. A JSON integer
  is kept in 64 bits; \<open>json_object_get_int\<close> clamps it to the range of \<open>int32_t\<close>.
\<close>

definition json_object_get_int :: "'d json_c \<Rightarrow> 'd json_object \<Rightarrow> 32 word" where
  "json_object_get_int jc jso =
     (case jso of
        JInt i \<Rightarrow> word_of_int (max (- (2 ^ 31)) (min (2 ^ 31 - 1) i))
      | _ \<Rightarrow> other_to_int jc jso)"

definition json_object_get_boolean :: "'d json_c \<Rightarrow> 'd json_object \<Rightarrow> bool" where
  "json_object_get_boolean jc jso =
     (case jso of JBoolean b \<Rightarrow> b | _ \<Rightarrow> other_to_boolean jc jso)"

definition json_object_get_double :: "'d json_c \<Rightarrow> 'd json_object \<Rightarrow> 'd" where
  "json_object_get_double jc jso =
     (case jso of JDouble d \<Rightarrow> d | _ \<Rightarrow> other_to_double jc jso)"

text \<open>
  \<open>json_object_get_string\<close> returns a \<open>const char *\<close>: the characters of a string, the
  JSON text of a value of another type, and the null pointer (\<open>None\<close>) for \<open>null\<close>.
\<close>

definition json_object_get_string :: "'d json_c \<Rightarrow> 'd json_object \<Rightarrow> string option" where
  "json_object_get_string jc jso =
     (case jso of
        JNull \<Rightarrow> None
      | JString s \<Rightarrow> Some s
      | _ \<Rightarrow> Some (other_to_string jc jso))"

subsection \<open>Paths\<close>

text \<open>
  Modelled from the spec: class \<open>Path\<close> (platform.h) is not under src/. The file reads its
  public member \<open>raw\<close>; \<open>Path::From\<close> wraps a string and \<open>IsEmpty\<close> tests \<open>raw\<close> for
  emptiness. \<open>Path::Join\<close> is taken as a parameter (field \<open>Join\<close> of the record of the
  system below).
\<close>

record Path =
  raw :: string

definition From :: "string \<Rightarrow> Path" where
  "From s = \<lparr>raw = s\<rparr>"

definition IsEmpty :: "Path \<Rightarrow> bool" where
  "IsEmpty p = (raw p = [])"

subsection \<open>The system the settings talk to\<close>

type_synonym errno = nat

definition ENOENT :: errno where
  "ENOENT = 2"

text \<open>\<open>stat\<close> succeeds, telling whether the file is a directory, or fails with an errno.\<close>

datatype stat_result = StatOk bool | StatErr errno

text \<open>
  \<open>json_object_from_file\<close> returns the document the file parses to, of whatever JSON
  type, or \<open>NULL\<close> (\<open>JNull\<close>); the second component is errno after the call.
  \<open>mkdir\<close> and \<open>json_object_to_file_ext\<close> return \<open>None\<close> on success and the errno of the
  failure otherwise.
\<close>

record 'd system =
  getenv :: "string \<Rightarrow> string option"
  stat :: "string \<Rightarrow> stat_result"
  mkdir :: "string \<Rightarrow> errno option"
  json_object_from_file :: "string \<Rightarrow> 'd json_object \<times> errno"
  json_object_to_file_ext :: "string \<Rightarrow> 'd json_object \<Rightarrow> errno option"
  Join :: "Path \<Rightarrow> string \<Rightarrow> Path"

text \<open>The messages handed to the debug-print facility \<open>dbp\<close>, with their arguments.\<close>

datatype dbp_message =
    NeitherSet
  | CannotMkdir string errno
  | CannotStat string errno
  | NotADirectory string
  | WillNotBeSaved
  | CannotLoad errno
  | CannotSave errno

subsection \<open>Settings\<close>

record 'd SettingsImplGtk =
  m_path :: Path
  m_json :: "'d json_object"

definition GetConfigPath :: "'d system \<Rightarrow> Path \<times> dbp_message list" where
  "GetConfigPath sys =
     (case (case getenv sys ''XDG_CONFIG_HOME'' of
              Some x \<Rightarrow> Some (From x)
            | None \<Rightarrow>
                (case getenv sys ''HOME'' of
                   Some h \<Rightarrow> Some (Join sys (From h) ''.config'')
                 | None \<Rightarrow> None)) of
        None \<Rightarrow> (From '''', [NeitherSet])
      | Some configHome0 \<Rightarrow>
          (let configHome =
                 (if \<not> IsEmpty configHome0 then Join sys configHome0 ''solvespace''
                  else configHome0);
               configHomeC = c_str (raw configHome)
           in case stat sys configHomeC of
                StatErr e \<Rightarrow>
                  if e = ENOENT then
                    (case mkdir sys configHomeC of
                       Some e' \<Rightarrow> (From '''', [CannotMkdir configHomeC e'])
                     | None \<Rightarrow> (Join sys configHome ''settings.json'', []))
                  else (From '''', [CannotStat configHomeC e])
              | StatOk isdir \<Rightarrow>
                  if \<not> isdir then (From '''', [NotADirectory configHomeC])
                  else (Join sys configHome ''settings.json'', [])))"

text \<open>
  Two readings of \<open>GetConfigPath\<close>, for stating what it does: the directory it settles
  on before it asks the file system (\<open>None\<close> when neither variable is set), and the
  message of the failure branch that the \<open>stat\<close>/\<open>mkdir\<close> block takes for a directory
  (\<open>None\<close> when the block reaches the last line: the directory exists, or did not exist
  and was created).
\<close>

definition config_dir :: "'d system \<Rightarrow> Path option" where
  "config_dir sys =
     (case getenv sys ''XDG_CONFIG_HOME'' of
        Some x \<Rightarrow> Some (if x \<noteq> [] then Join sys (From x) ''solvespace'' else From x)
      | None \<Rightarrow>
          (case getenv sys ''HOME'' of
             Some h \<Rightarrow>
               Some (if \<not> IsEmpty (Join sys (From h) ''.config'')
                     then Join sys (Join sys (From h) ''.config'') ''solvespace''
                     else Join sys (From h) ''.config'')
           | None \<Rightarrow> None))"

definition directory_failure :: "'d system \<Rightarrow> Path \<Rightarrow> dbp_message option" where
  "directory_failure sys dir =
     (case stat sys (c_str (raw dir)) of
        StatErr e \<Rightarrow>
          if e = ENOENT then
            (case mkdir sys (c_str (raw dir)) of
               Some e' \<Rightarrow> Some (CannotMkdir (c_str (raw dir)) e')
             | None \<Rightarrow> None)
          else Some (CannotStat (c_str (raw dir)) e)
      | StatOk isdir \<Rightarrow> if \<not> isdir then Some (NotADirectory (c_str (raw dir))) else None)"

text \<open>
  The constructor: the new object and what it printed. \<open>_json\<close> starts as \<open>NULL\<close>, takes
  whatever \<open>json_object_from_file\<close> returns when there is a path, and becomes a new
  object when it is still \<open>NULL\<close> after that. The type of a loaded document is not
  checked.
\<close>

definition SettingsImplGtk_new :: "'d system \<Rightarrow> 'd SettingsImplGtk \<times> dbp_message list" where
  "SettingsImplGtk_new sys =
     (case GetConfigPath sys of
        (p, printed) \<Rightarrow>
          (case (if IsEmpty p then (JNull, printed @ [WillNotBeSaved])
                 else
                   (case json_object_from_file sys (c_str (raw p)) of
                      (doc, e) \<Rightarrow>
                        (doc, printed @ (if doc = JNull \<and> e \<noteq> ENOENT then [CannotLoad e]
                                         else [])))) of
             (doc, printed') \<Rightarrow>
               (\<lparr>m_path = p,
                 m_json = (if doc = JNull then json_object_new_object else doc)\<rparr>,
                printed')))"

text \<open>
  The destructor: what it printed, and the file it wrote with the document written
  (\<open>None\<close> when nothing was written).
\<close>

definition SettingsImplGtk_delete ::
  "'d system \<Rightarrow> 'd SettingsImplGtk
     \<Rightarrow> dbp_message list \<times> (string \<times> 'd json_object) option" where
  "SettingsImplGtk_delete sys this =
     (if \<not> IsEmpty (m_path this) then
        (case json_object_to_file_ext sys (c_str (raw (m_path this))) (m_json this) of
           Some e \<Rightarrow> ([CannotSave e], None)
         | None \<Rightarrow> ([], Some (c_str (raw (m_path this)), m_json this)))
      else ([], None))"

text \<open>
  The Freeze operations return the settings they changed; the Thaw operations return
  their result and the settings they were called on. \<open>ThawString\<close> builds the
  \<open>std::string\<close> it returns from the \<open>const char *\<close> of \<open>json_object_get_string\<close>: it
  throws on the null pointer, and reads the characters up to the first NUL otherwise.
\<close>

definition FreezeInt ::
  "'d json_c \<Rightarrow> 'd SettingsImplGtk \<Rightarrow> string \<Rightarrow> 32 word \<Rightarrow> 'd SettingsImplGtk" where
  "FreezeInt jc this key v =
     (let jsonValue = json_object_new_int v
      in this\<lparr>m_json := json_object_object_add jc (m_json this) (c_str key) jsonValue\<rparr>)"

definition ThawInt ::
  "'d json_c \<Rightarrow> 'd SettingsImplGtk \<Rightarrow> string \<Rightarrow> 32 word
     \<Rightarrow> 32 word \<times> 'd SettingsImplGtk" where
  "ThawInt jc this key defaultValue =
     (case json_object_object_get_ex (m_json this) (c_str key) of
        Some jsonValue \<Rightarrow> (json_object_get_int jc jsonValue, this)
      | None \<Rightarrow> (defaultValue, this))"

definition FreezeBool ::
  "'d json_c \<Rightarrow> 'd SettingsImplGtk \<Rightarrow> string \<Rightarrow> bool \<Rightarrow> 'd SettingsImplGtk" where
  "FreezeBool jc this key v =
     (let jsonValue = json_object_new_boolean v
      in this\<lparr>m_json := json_object_object_add jc (m_json this) (c_str key) jsonValue\<rparr>)"

definition ThawBool ::
  "'d json_c \<Rightarrow> 'd SettingsImplGtk \<Rightarrow> string \<Rightarrow> bool
     \<Rightarrow> bool \<times> 'd SettingsImplGtk" where
  "ThawBool jc this key defaultValue =
     (case json_object_object_get_ex (m_json this) (c_str key) of
        Some jsonValue \<Rightarrow> (json_object_get_boolean jc jsonValue, this)
      | None \<Rightarrow> (defaultValue, this))"

definition FreezeFloat ::
  "'d json_c \<Rightarrow> 'd SettingsImplGtk \<Rightarrow> string \<Rightarrow> 'd \<Rightarrow> 'd SettingsImplGtk" where
  "FreezeFloat jc this key v =
     (let jsonValue = json_object_new_double v
      in this\<lparr>m_json := json_object_object_add jc (m_json this) (c_str key) jsonValue\<rparr>)"

definition ThawFloat ::
  "'d json_c \<Rightarrow> 'd SettingsImplGtk \<Rightarrow> string \<Rightarrow> 'd
     \<Rightarrow> 'd \<times> 'd SettingsImplGtk" where
  "ThawFloat jc this key defaultValue =
     (case json_object_object_get_ex (m_json this) (c_str key) of
        Some jsonValue \<Rightarrow> (json_object_get_double jc jsonValue, this)
      | None \<Rightarrow> (defaultValue, this))"

definition FreezeString ::
  "'d json_c \<Rightarrow> 'd SettingsImplGtk \<Rightarrow> string \<Rightarrow> string \<Rightarrow> 'd SettingsImplGtk" where
  "FreezeString jc this key v =
     (let jsonValue = json_object_new_string (c_str v)
      in this\<lparr>m_json := json_object_object_add jc (m_json this) (c_str key) jsonValue\<rparr>)"

definition ThawString ::
  "'d json_c \<Rightarrow> 'd SettingsImplGtk \<Rightarrow> string \<Rightarrow> string
     \<Rightarrow> error + string \<times> 'd SettingsImplGtk" where
  "ThawString jc this key defaultValue =
     (case json_object_object_get_ex (m_json this) (c_str key) of
        Some jsonValue \<Rightarrow>
          (case json_object_get_string jc jsonValue of
             None \<Rightarrow> Inl LogicError
           | Some chars \<Rightarrow> Inr (c_str chars, this))
      | None \<Rightarrow> Inr (defaultValue, this))"

text \<open>
  The callers of the settings: a call of one of the eight operations, and a sequence
  of calls, which an exception ends. Results of the Thaw operations go to the caller and
  are not kept here.
\<close>

datatype 'd call =
    Call_FreezeInt string "32 word"
  | Call_ThawInt string "32 word"
  | Call_FreezeBool string bool
  | Call_ThawBool string bool
  | Call_FreezeFloat string 'd
  | Call_ThawFloat string 'd
  | Call_FreezeString string string
  | Call_ThawString string string

fun Settings_call ::
  "'d json_c \<Rightarrow> 'd SettingsImplGtk \<Rightarrow> 'd call \<Rightarrow> error + 'd SettingsImplGtk" where
  "Settings_call jc this (Call_FreezeInt key v) = Inr (FreezeInt jc this key v)"
| "Settings_call jc this (Call_ThawInt key d) = Inr (snd (ThawInt jc this key d))"
| "Settings_call jc this (Call_FreezeBool key v) = Inr (FreezeBool jc this key v)"
| "Settings_call jc this (Call_ThawBool key d) = Inr (snd (ThawBool jc this key d))"
| "Settings_call jc this (Call_FreezeFloat key v) = Inr (FreezeFloat jc this key v)"
| "Settings_call jc this (Call_ThawFloat key d) = Inr (snd (ThawFloat jc this key d))"
| "Settings_call jc this (Call_FreezeString key v) = Inr (FreezeString jc this key v)"
| "Settings_call jc this (Call_ThawString key d) =
     (case ThawString jc this key d of Inl e \<Rightarrow> Inl e | Inr (chars, this') \<Rightarrow> Inr this')"

fun Settings_calls ::
  "'d json_c \<Rightarrow> 'd SettingsImplGtk \<Rightarrow> 'd call list \<Rightarrow> error + 'd SettingsImplGtk" where
  "Settings_calls jc this [] = Inr this"
| "Settings_calls jc this (c # cs) =
     (case Settings_call jc this c of
        Inl e \<Rightarrow> Inl e
      | Inr this' \<Rightarrow> Settings_calls jc this' cs)"

text \<open>
  A document that is an object without a null entry: what a document is that started
  as a new object and was filled by the Freeze operations.
\<close>

definition no_null_entry :: "'d json_object \<Rightarrow> bool" where
  "no_null_entry jso =
     (case jso of JObject entries \<Rightarrow> JNull \<notin> snd ` set entries | _ \<Rightarrow> False)"

subsection \<open>Menu items\<close>

text \<open>
  \<open>GtkMenuItem\<close> extends \<open>Gtk::CheckMenuItem\<close>. Of the base class the model keeps the
  \<open>active\<close> flag (read by \<open>get_active\<close>), the radio and the sensitive flag; of the
  subclass, \<open>_has_indicator\<close> and \<open>_synthetic_event\<close>.
\<close>

record GtkMenuItem =
  get_active :: bool
  get_draw_as_radio :: bool
  get_sensitive :: bool
  has_indicator :: bool
  synthetic_event :: bool

text \<open>
  \<open>MenuItemImplGtk\<close> holds the widget and the \<open>onTrigger\<close> callback of the interface
  \<open>MenuItem\<close>; an empty \<open>std::function\<close> is \<open>None\<close>. A callback acts on the state \<open>'a\<close> of
  the application.
\<close>

record 'a MenuItemImplGtk =
  onTrigger :: "('a \<Rightarrow> 'a) option"
  gtkMenuItem :: GtkMenuItem

definition GtkMenuItem_new :: GtkMenuItem where
  "GtkMenuItem_new =
     \<lparr>get_active = False, get_draw_as_radio = False, get_sensitive = True,
      has_indicator = False, synthetic_event = False\<rparr>"

definition MenuItemImplGtk_new :: "'a MenuItemImplGtk" where
  "MenuItemImplGtk_new = \<lparr>onTrigger = None, gtkMenuItem = GtkMenuItem_new\<rparr>"

definition set_has_indicator :: "GtkMenuItem \<Rightarrow> bool \<Rightarrow> GtkMenuItem" where
  "set_has_indicator g b = g\<lparr>has_indicator := b\<rparr>"

definition set_draw_as_radio :: "GtkMenuItem \<Rightarrow> bool \<Rightarrow> GtkMenuItem" where
  "set_draw_as_radio g b = g\<lparr>get_draw_as_radio := b\<rparr>"

definition set_sensitive :: "GtkMenuItem \<Rightarrow> bool \<Rightarrow> GtkMenuItem" where
  "set_sensitive g b = g\<lparr>get_sensitive := b\<rparr>"

text \<open>
  \<open>Gtk::CheckMenuItem::on_activate\<close>, the toolkit's handler of the activate signal,
  toggles the active flag.
\<close>

definition CheckMenuItem_on_activate :: "GtkMenuItem \<Rightarrow> GtkMenuItem" where
  "CheckMenuItem_on_activate g = g\<lparr>get_active := \<not> get_active g\<rparr>"

text \<open>
  \<open>GtkMenuItem::on_activate\<close> runs on every activate signal, from the user or from
  \<open>set_active\<close>.
\<close>

definition on_activate :: "'a MenuItemImplGtk \<Rightarrow> 'a \<Rightarrow> 'a MenuItemImplGtk \<times> 'a" where
  "on_activate receiver app =
     (let g = CheckMenuItem_on_activate (gtkMenuItem receiver)
      in (receiver\<lparr>gtkMenuItem := g\<rparr>,
          if \<not> synthetic_event g then
            (case onTrigger receiver of Some callback \<Rightarrow> callback app | None \<Rightarrow> app)
          else app))"

text \<open>
  \<open>Gtk::CheckMenuItem::set_active\<close> emits the activate signal when the flag differs from
  the state asked for, and does nothing otherwise.
\<close>

definition CheckMenuItem_set_active ::
  "'a MenuItemImplGtk \<Rightarrow> bool \<Rightarrow> 'a \<Rightarrow> 'a MenuItemImplGtk \<times> 'a" where
  "CheckMenuItem_set_active receiver active app =
     (if get_active (gtkMenuItem receiver) \<noteq> active then on_activate receiver app
      else (receiver, app))"

definition set_active :: "'a MenuItemImplGtk \<Rightarrow> bool \<Rightarrow> 'a \<Rightarrow> 'a MenuItemImplGtk \<times> 'a" where
  "set_active receiver active app =
     (if get_active (gtkMenuItem receiver) = active then (receiver, app)
      else
        (case CheckMenuItem_set_active
                (receiver\<lparr>gtkMenuItem := (gtkMenuItem receiver)\<lparr>synthetic_event := True\<rparr>\<rparr>)
                active app of
           (r, app') \<Rightarrow> (r\<lparr>gtkMenuItem := (gtkMenuItem r)\<lparr>synthetic_event := False\<rparr>\<rparr>, app')))"

datatype Indicator = Indicator_NONE | CHECK_MARK | RADIO_MARK

definition SetIndicator :: "'a MenuItemImplGtk \<Rightarrow> Indicator \<Rightarrow> 'a MenuItemImplGtk" where
  "SetIndicator this type =
     (case type of
        Indicator_NONE \<Rightarrow>
          this\<lparr>gtkMenuItem := set_has_indicator (gtkMenuItem this) False\<rparr>
      | CHECK_MARK \<Rightarrow>
          this\<lparr>gtkMenuItem :=
                 set_draw_as_radio (set_has_indicator (gtkMenuItem this) True) False\<rparr>
      | RADIO_MARK \<Rightarrow>
          this\<lparr>gtkMenuItem :=
                 set_draw_as_radio (set_has_indicator (gtkMenuItem this) True) True\<rparr>)"

definition SetActive ::
  "'a MenuItemImplGtk \<Rightarrow> bool \<Rightarrow> 'a \<Rightarrow> error + 'a MenuItemImplGtk \<times> 'a" where
  "SetActive this active app =
     (if \<not> has_indicator (gtkMenuItem this)
      then Inl (AssertFailure ''Cannot change state of a menu item without indicator'')
      else Inr (set_active this active app))"

definition SetEnabled :: "'a MenuItemImplGtk \<Rightarrow> bool \<Rightarrow> 'a MenuItemImplGtk" where
  "SetEnabled this enabled = this\<lparr>gtkMenuItem := set_sensitive (gtkMenuItem this) enabled\<rparr>"

subsection \<open>Pointer events\<close>

text \<open>
  Modelled from the spec: \<open>MouseEvent\<close> is declared in a header that is not under src/. It
  has the members \<open>process_pointer_event\<close> assigns (type, coordinates, button, shift and
  control modifiers, scroll delta); \<open>MouseEvent event = {}\<close> sets each to zero, that is
  the first enumerator, \<open>false\<close> and 0.
\<close>

datatype MouseEvent_Type = MOTION | PRESS | DBL_PRESS | RELEASE | SCROLL_VERT | LEAVE

datatype MouseEvent_Button = Button_NONE | Button_LEFT | Button_MIDDLE | Button_RIGHT

record 'd MouseEvent =
  event_type :: MouseEvent_Type
  event_x :: 'd
  event_y :: 'd
  shiftDown :: bool
  controlDown :: bool
  event_button :: MouseEvent_Button
  scrollDelta :: int

text \<open>
  The window that receives the events: its \<open>onMouseEvent\<close> callback returns whether it
  consumed the event, and acts on the state of the application.
\<close>

record ('d, 'a) Window =
  onMouseEvent :: "('d MouseEvent \<Rightarrow> 'a \<Rightarrow> bool \<times> 'a) option"

text \<open>The modifier masks of GDK.\<close>

definition GDK_SHIFT_MASK :: "32 word" where "GDK_SHIFT_MASK = 1"
definition GDK_CONTROL_MASK :: "32 word" where "GDK_CONTROL_MASK = 4"
definition GDK_BUTTON1_MASK :: "32 word" where "GDK_BUTTON1_MASK = 256"
definition GDK_BUTTON2_MASK :: "32 word" where "GDK_BUTTON2_MASK = 512"
definition GDK_BUTTON3_MASK :: "32 word" where "GDK_BUTTON3_MASK = 1024"

definition process_pointer_event ::
  "('d::zero, 'a) Window \<Rightarrow> MouseEvent_Type \<Rightarrow> 'd \<Rightarrow> 'd \<Rightarrow> 32 word \<Rightarrow> 32 word \<Rightarrow> int \<Rightarrow> 'a
     \<Rightarrow> bool \<times> 'a" where
  "process_pointer_event receiver type x y state button scroll_delta app =
     (let event = \<lparr>event_type = MOTION, event_x = 0, event_y = 0, shiftDown = False,
                   controlDown = False, event_button = Button_NONE, scrollDelta = 0\<rparr>;
          event = event\<lparr>event_type := type\<rparr>;
          event = event\<lparr>event_x := x\<rparr>;
          event = event\<lparr>event_y := y\<rparr>;
          event =
            (if button = 1 \<or> state AND GDK_BUTTON1_MASK \<noteq> 0
             then event\<lparr>event_button := Button_LEFT\<rparr>
             else if button = 2 \<or> state AND GDK_BUTTON2_MASK \<noteq> 0
             then event\<lparr>event_button := Button_MIDDLE\<rparr>
             else if button = 3 \<or> state AND GDK_BUTTON3_MASK \<noteq> 0
             then event\<lparr>event_button := Button_RIGHT\<rparr>
             else event);
          event = (if state AND GDK_SHIFT_MASK \<noteq> 0 then event\<lparr>shiftDown := True\<rparr> else event);
          event =
            (if state AND GDK_CONTROL_MASK \<noteq> 0 then event\<lparr>controlDown := True\<rparr> else event);
          event = (if scroll_delta \<noteq> 0 then event\<lparr>scrollDelta := scroll_delta\<rparr> else event)
      in case onMouseEvent receiver of
           Some callback \<Rightarrow> callback event app
         | None \<Rightarrow> (False, app))"


text \<open>
  The native events, with the members the handlers read. Each handler takes as \<open>base\<close>
  what the handler of \<open>Gtk::GLArea\<close> that it falls back on returns for the event.
\<close>

record 'd GdkEventMotion =
  motion_x :: 'd
  motion_y :: 'd
  motion_state :: "32 word"

datatype GdkEventType = GDK_BUTTON_PRESS | GDK_2BUTTON_PRESS | GDK_3BUTTON_PRESS
  | GDK_BUTTON_RELEASE

record 'd GdkEventButton =
  button_type :: GdkEventType
  button_x :: 'd
  button_y :: 'd
  button_state :: "32 word"
  button_button :: "32 word"

datatype GdkScrollDirection = GDK_SCROLL_UP | GDK_SCROLL_DOWN | GDK_SCROLL_LEFT
  | GDK_SCROLL_RIGHT | GDK_SCROLL_SMOOTH

record 'd GdkEventScroll =
  scroll_x :: 'd
  scroll_y :: 'd
  scroll_state :: "32 word"
  scroll_direction :: GdkScrollDirection
  scroll_delta_y :: 'd

record 'd GdkEventCrossing =
  crossing_x :: 'd
  crossing_y :: 'd
  crossing_state :: "32 word"

definition on_motion_notify_event ::
  "('d::zero, 'a) Window \<Rightarrow> bool \<Rightarrow> 'd GdkEventMotion \<Rightarrow> 'a \<Rightarrow> bool \<times> 'a" where
  "on_motion_notify_event receiver base gdk_event app =
     (case process_pointer_event receiver MOTION (motion_x gdk_event) (motion_y gdk_event)
             (motion_state gdk_event) 0 0 app of
        (consumed, app') \<Rightarrow> if consumed then (True, app') else (base, app'))"

definition on_button_press_event ::
  "('d::zero, 'a) Window \<Rightarrow> bool \<Rightarrow> 'd GdkEventButton \<Rightarrow> 'a \<Rightarrow> bool \<times> 'a" where
  "on_button_press_event receiver base gdk_event app =
     (case (if button_type gdk_event = GDK_BUTTON_PRESS then Some PRESS
            else if button_type gdk_event = GDK_2BUTTON_PRESS then Some DBL_PRESS
            else None) of
        None \<Rightarrow> (base, app)
      | Some type \<Rightarrow>
          (case process_pointer_event receiver type (button_x gdk_event) (button_y gdk_event)
                  (button_state gdk_event) (button_button gdk_event) 0 app of
             (consumed, app') \<Rightarrow> if consumed then (True, app') else (base, app')))"

definition on_button_release_event ::
  "('d::zero, 'a) Window \<Rightarrow> bool \<Rightarrow> 'd GdkEventButton \<Rightarrow> 'a \<Rightarrow> bool \<times> 'a" where
  "on_button_release_event receiver base gdk_event app =
     (case process_pointer_event receiver RELEASE (button_x gdk_event) (button_y gdk_event)
             (button_state gdk_event) (button_button gdk_event) 0 app of
        (consumed, app') \<Rightarrow> if consumed then (True, app') else (base, app'))"

definition on_scroll_event ::
  "('d::{zero,ord}, 'a) Window \<Rightarrow> bool \<Rightarrow> 'd GdkEventScroll \<Rightarrow> 'a \<Rightarrow> bool \<times> 'a" where
  "on_scroll_event receiver base gdk_event app =
     (case (if scroll_delta_y gdk_event < 0 \<or> scroll_direction gdk_event = GDK_SCROLL_UP
            then Some 1
            else if scroll_delta_y gdk_event > 0 \<or> scroll_direction gdk_event = GDK_SCROLL_DOWN
            then Some (- 1)
            else None) of
        None \<Rightarrow> (False, app)
      | Some delta \<Rightarrow>
          (case process_pointer_event receiver SCROLL_VERT (scroll_x gdk_event)
                  (scroll_y gdk_event) (scroll_state gdk_event) 0 delta app of
             (consumed, app') \<Rightarrow> if consumed then (True, app') else (base, app')))"

definition on_leave_notify_event ::
  "('d::zero, 'a) Window \<Rightarrow> bool \<Rightarrow> 'd GdkEventCrossing \<Rightarrow> 'a \<Rightarrow> bool \<times> 'a" where
  "on_leave_notify_event receiver base gdk_event app =
     (case process_pointer_event receiver LEAVE (crossing_x gdk_event) (crossing_y gdk_event)
             (crossing_state gdk_event) 0 0 app of
        (consumed, app') \<Rightarrow> if consumed then (True, app') else (base, app'))"

subsection \<open>Windows\<close>

text \<open>
  Of \<open>Gtk::Window\<close> the model keeps what \<open>is_visible\<close>, \<open>get_position\<close>, \<open>get_size\<close> and
  \<open>is_maximized\<close> return; \<open>move\<close>, \<open>resize\<close> and \<open>maximize\<close> set them.
\<close>

record GtkWindow =
  is_visible :: bool
  get_position :: "32 word \<times> 32 word"
  get_size :: "32 word \<times> 32 word"
  is_maximized :: bool

definition move :: "GtkWindow \<Rightarrow> 32 word \<Rightarrow> 32 word \<Rightarrow> GtkWindow" where
  "move w x y = w\<lparr>get_position := (x, y)\<rparr>"

definition resize :: "GtkWindow \<Rightarrow> 32 word \<Rightarrow> 32 word \<Rightarrow> GtkWindow" where
  "resize w width height = w\<lparr>get_size := (width, height)\<rparr>"

definition maximize :: "GtkWindow \<Rightarrow> GtkWindow" where
  "maximize w = w\<lparr>is_maximized := True\<rparr>"

definition FreezePosition ::
  "'d json_c \<Rightarrow> GtkWindow \<Rightarrow> 'd SettingsImplGtk \<Rightarrow> string \<Rightarrow> 'd SettingsImplGtk" where
  "FreezePosition jc gtkWindow settings key =
     (if \<not> is_visible gtkWindow then settings
      else
        (case get_position gtkWindow of
           (left, top1) \<Rightarrow>
             (case get_size gtkWindow of
                (width, height) \<Rightarrow>
                  (let isMaximized = is_maximized gtkWindow;
                       settings = FreezeInt jc settings (key @ ''_Left'') left;
                       settings = FreezeInt jc settings (key @ ''_Top'') top1;
                       settings = FreezeInt jc settings (key @ ''_Width'') width;
                       settings = FreezeInt jc settings (key @ ''_Height'') height
                   in FreezeBool jc settings (key @ ''_Maximized'') isMaximized))))"

definition ThawPosition ::
  "'d json_c \<Rightarrow> GtkWindow \<Rightarrow> 'd SettingsImplGtk \<Rightarrow> string
     \<Rightarrow> GtkWindow \<times> 'd SettingsImplGtk" where
  "ThawPosition jc gtkWindow settings key =
     (case get_position gtkWindow of
        (left0, top0) \<Rightarrow>
     (case get_size gtkWindow of
        (width0, height0) \<Rightarrow>
     (case ThawInt jc settings (key @ ''_Left'') left0 of
        (left, settings) \<Rightarrow>
     (case ThawInt jc settings (key @ ''_Top'') top0 of
        (top1, settings) \<Rightarrow>
     (case ThawInt jc settings (key @ ''_Width'') width0 of
        (width, settings) \<Rightarrow>
     (case ThawInt jc settings (key @ ''_Height'') height0 of
        (height, settings) \<Rightarrow>
          (let gtkWindow = move gtkWindow left top1;
               gtkWindow = resize gtkWindow width height
           in case ThawBool jc settings (key @ ''_Maximized'') False of
                (maximized, settings) \<Rightarrow>
                  (if maximized then maximize gtkWindow else gtkWindow, settings))))))))"

subsection \<open>Message dialogs\<close>

text \<open>
  Modelled from the spec: the enumeration \<open>MessageDialog::Response\<close> is declared in a header
  that is not under src/; its values are the cases of the switch in \<open>AddButton\<close>.
\<close>

datatype Response = Response_NONE | Response_OK | Response_YES | Response_NO | Response_CANCEL

text \<open>The response ids of GTK.\<close>

definition RESPONSE_NONE :: int where "RESPONSE_NONE = - 1"
definition RESPONSE_DELETE_EVENT :: int where "RESPONSE_DELETE_EVENT = - 4"
definition RESPONSE_OK :: int where "RESPONSE_OK = - 5"
definition RESPONSE_CANCEL :: int where "RESPONSE_CANCEL = - 6"
definition RESPONSE_CLOSE :: int where "RESPONSE_CLOSE = - 7"
definition RESPONSE_YES :: int where "RESPONSE_YES = - 8"
definition RESPONSE_NO :: int where "RESPONSE_NO = - 9"

text \<open>
  Of \<open>Gtk::MessageDialog\<close> the model keeps the buttons, each with its label and response
  id, and the default response. The constructor asks for \<open>BUTTONS_NONE\<close>.
\<close>

record GtkMessageDialog =
  dialog_buttons :: "(string \<times> int) list"
  default_response :: "int option"

definition MessageDialogImplGtk_new :: GtkMessageDialog where
  "MessageDialogImplGtk_new = \<lparr>dialog_buttons = [], default_response = None\<rparr>"

definition add_button :: "GtkMessageDialog \<Rightarrow> string \<Rightarrow> int \<Rightarrow> GtkMessageDialog" where
  "add_button d label responseId = d\<lparr>dialog_buttons := dialog_buttons d @ [(label, responseId)]\<rparr>"

definition set_default_response :: "GtkMessageDialog \<Rightarrow> int \<Rightarrow> GtkMessageDialog" where
  "set_default_response d responseId = d\<lparr>default_response := Some responseId\<rparr>"

definition AddButton ::
  "GtkMessageDialog \<Rightarrow> string \<Rightarrow> Response \<Rightarrow> bool \<Rightarrow> error + GtkMessageDialog" where
  "AddButton gtkDialog name response isDefault =
     (case (case response of
              Response_NONE \<Rightarrow> Inl (AssertFailure ''Invalid response'')
            | Response_OK \<Rightarrow> Inr RESPONSE_OK
            | Response_YES \<Rightarrow> Inr RESPONSE_YES
            | Response_NO \<Rightarrow> Inr RESPONSE_NO
            | Response_CANCEL \<Rightarrow> Inr RESPONSE_CANCEL) of
        Inl e \<Rightarrow> Inl e
      | Inr responseId \<Rightarrow>
          (let gtkDialog = add_button gtkDialog (PrepareMnemonics name) responseId
           in Inr (if isDefault then set_default_response gtkDialog responseId
                   else gtkDialog)))"

text \<open>
  \<open>RunModal\<close>, given the response id that \<open>gtkDialog.run()\<close> returned once the dialog was
  answered.
\<close>

definition RunModal :: "int \<Rightarrow> error + Response" where
  "RunModal run =
     (if run = RESPONSE_OK then Inr Response_OK
      else if run = RESPONSE_YES then Inr Response_YES
      else if run = RESPONSE_NO then Inr Response_NO
      else if run = RESPONSE_CANCEL then Inr Response_CANCEL
      else if run = RESPONSE_NONE \<or> run = RESPONSE_CLOSE \<or> run = RESPONSE_DELETE_EVENT
      then Inr Response_NONE
      else Inl (AssertFailure ''Unexpected response''))"

subsection \<open>Concrete inputs\<close>

text \<open>
  The inputs at which the theorems below are instantiated. First a json-c whose
  conversions answer zero and whose \<open>json_object_object_add\<close> leaves a value that is not
  an object as it is; a settings object without a file whose document is a new object,
  and one whose document is the empty array; three windows.
\<close>

definition json_c0 :: "real json_c" where
  "json_c0 =
     \<lparr>other_to_int = (\<lambda>j. 0), other_to_boolean = (\<lambda>j. False),
      other_to_double = (\<lambda>j. 0), other_to_string = (\<lambda>j. []),
      object_add_other = (\<lambda>jso key val. jso)\<rparr>"

definition settings0 :: "real SettingsImplGtk" where
  "settings0 = \<lparr>m_path = From [], m_json = json_object_new_object\<rparr>"

definition settings_array :: "real SettingsImplGtk" where
  "settings_array = \<lparr>m_path = From [], m_json = JArray []\<rparr>"

definition window_hidden :: GtkWindow where
  "window_hidden =
     \<lparr>is_visible = False, get_position = (100, 50), get_size = (800, 600),
      is_maximized = False\<rparr>"

definition window_shown :: GtkWindow where
  "window_shown =
     \<lparr>is_visible = True, get_position = (100, 50), get_size = (800, 600),
      is_maximized = False\<rparr>"

definition window_maximized :: GtkWindow where
  "window_maximized =
     \<lparr>is_visible = True, get_position = (0, 0), get_size = (1920, 1080),
      is_maximized = True\<rparr>"

text \<open>
  Systems whose \<open>Path::Join\<close> puts a slash between directory and component. In the
  first, \<open>XDG_CONFIG_HOME=/x\<close>, the directory \<open>/x/solvespace\<close> exists, and there is no
  settings file yet.
\<close>

definition slash_join :: "Path \<Rightarrow> string \<Rightarrow> Path" where
  "slash_join p component = From (raw p @ ''/'' @ component)"

definition system_fresh :: "real system" where
  "system_fresh =
     \<lparr>getenv = (\<lambda>name. if name = ''XDG_CONFIG_HOME'' then Some ''/x'' else None),
      stat = (\<lambda>file. StatOk True),
      mkdir = (\<lambda>file. None),
      json_object_from_file = (\<lambda>file. (JNull, ENOENT)),
      json_object_to_file_ext = (\<lambda>file doc. None),
      Join = slash_join\<rparr>"

text \<open>The same, but \<open>/x/solvespace\<close> is a regular file.\<close>

definition system_not_a_directory :: "real system" where
  "system_not_a_directory = system_fresh\<lparr>stat := (\<lambda>file. StatOk False)\<rparr>"

text \<open>
  The same as the first, but the settings file cannot be read (errno 13, \<open>EACCES\<close>).
\<close>

definition system_unreadable :: "real system" where
  "system_unreadable = system_fresh\<lparr>json_object_from_file := (\<lambda>file. (JNull, 13))\<rparr>"

text \<open>
  Only \<open>HOME=/home/u\<close> is set; \<open>/home/u/.config/solvespace\<close> does not exist and can be
  created.
\<close>

definition system_home :: "real system" where
  "system_home =
     system_fresh\<lparr>getenv := (\<lambda>name. if name = ''HOME'' then Some ''/home/u'' else None),
                  stat := (\<lambda>file. StatErr ENOENT)\<rparr>"

text \<open>Neither variable is set.\<close>

definition system_no_environment :: "real system" where
  "system_no_environment = system_fresh\<lparr>getenv := (\<lambda>name. None)\<rparr>"

text \<open>The same as the first, but the file cannot be written (errno 28, \<open>ENOSPC\<close>).\<close>

definition system_disk_full :: "real system" where
  "system_disk_full = system_fresh\<lparr>json_object_to_file_ext := (\<lambda>file doc. Some 28)\<rparr>"

text \<open>
  The same again, with a settings file that holds an object whose only entry, \<open>k\<close>,
  is \<open>null\<close>.
\<close>

definition system_null_entry :: "real system" where
  "system_null_entry =
     system_disk_full\<lparr>json_object_from_file := (\<lambda>file. (JObject [(''k'', JNull)], 0))\<rparr>"

text \<open>
  A window whose callback appends the event to the application state, a list of events,
  and consumes the events of the left button; a window without a callback.
\<close>

definition recording_window :: "(real, real MouseEvent list) Window" where
  "recording_window =
     \<lparr>onMouseEvent = Some (\<lambda>event app. (event_button event = Button_LEFT, app @ [event]))\<rparr>"

definition deaf_window :: "(real, real MouseEvent list) Window" where
  "deaf_window = \<lparr>onMouseEvent = None\<rparr>"

text \<open>
  Native events: the third press of a triple click with button 1, a single press of
  button 1, a scroll to the right, a scroll down, and a motion with no button held.
\<close>

definition triple_press :: "real GdkEventButton" where
  "triple_press =
     \<lparr>button_type = GDK_3BUTTON_PRESS, button_x = 10, button_y = 20, button_state = 0,
      button_button = 1\<rparr>"

definition single_press :: "real GdkEventButton" where
  "single_press = triple_press\<lparr>button_type := GDK_BUTTON_PRESS\<rparr>"

definition scroll_right :: "real GdkEventScroll" where
  "scroll_right =
     \<lparr>scroll_x = 1, scroll_y = 2, scroll_state = 0, scroll_direction = GDK_SCROLL_RIGHT,
      scroll_delta_y = 0\<rparr>"

definition scroll_down :: "real GdkEventScroll" where
  "scroll_down = scroll_right\<lparr>scroll_direction := GDK_SCROLL_DOWN\<rparr>"

definition plain_motion :: "real GdkEventMotion" where
  "plain_motion = \<lparr>motion_x = 3, motion_y = 4, motion_state = 0\<rparr>"

text \<open>A menu item whose callback counts its calls in the application state.\<close>

definition counting_item :: "nat MenuItemImplGtk" where
  "counting_item = MenuItemImplGtk_new\<lparr>onTrigger := Some Suc\<rparr>"

section \<open>Properties\<close>

subsection \<open>Auxiliary facts\<close>

lemma c_str_no_nul: "CHR 0x00 \<notin> set s \<Longrightarrow> c_str s = s"
  by (auto simp add: c_str_def)

lemma c_str_c_str: "c_str (c_str s) = c_str s"
  by (simp add: c_str_def)

lemma c_str_key_suffix:
  assumes "CHR 0x00 \<notin> set key"
  shows "c_str (key @ ''_Left'') = key @ ''_Left''"
    and "c_str (key @ ''_Top'') = key @ ''_Top''"
    and "c_str (key @ ''_Width'') = key @ ''_Width''"
    and "c_str (key @ ''_Height'') = key @ ''_Height''"
    and "c_str (key @ ''_Maximized'') = key @ ''_Maximized''"
  using assms by (simp_all add: c_str_no_nul)

lemma is_object_new_object: "is_object json_object_new_object"
  by (simp add: is_object_def json_object_new_object_def)

lemma get_ex_new_object: "json_object_object_get_ex json_object_new_object k = None"
  by (simp add: json_object_object_get_ex_def json_object_new_object_def)

lemma is_object_object_add:
  "is_object jso \<Longrightarrow> is_object (json_object_object_add jc jso k v)"
  by (cases jso) (simp_all add: is_object_def json_object_object_add_def)

lemma get_ex_object_add:
  "is_object jso \<Longrightarrow>
     json_object_object_get_ex (json_object_object_add jc jso k v) k' =
       (if k' = k then Some v else json_object_object_get_ex jso k')"
  by (cases jso)
    (simp_all add: is_object_def json_object_object_get_ex_def json_object_object_add_def
      update_conv')

lemma get_int_new_int: "json_object_get_int jc (json_object_new_int v) = v"
  using sint_ge [of v] sint_lt [of v]
  by (simp add: json_object_get_int_def json_object_new_int_def)

lemma m_json_FreezeInt:
  "m_json (FreezeInt jc s k v) =
     json_object_object_add jc (m_json s) (c_str k) (json_object_new_int v)"
  by (simp add: FreezeInt_def)

lemma m_json_FreezeBool:
  "m_json (FreezeBool jc s k v) =
     json_object_object_add jc (m_json s) (c_str k) (json_object_new_boolean v)"
  by (simp add: FreezeBool_def)

lemma m_json_FreezeFloat:
  "m_json (FreezeFloat jc s k v) =
     json_object_object_add jc (m_json s) (c_str k) (json_object_new_double v)"
  by (simp add: FreezeFloat_def)

lemma m_json_FreezeString:
  "m_json (FreezeString jc s k v) =
     json_object_object_add jc (m_json s) (c_str k) (json_object_new_string (c_str v))"
  by (simp add: FreezeString_def)

lemma m_path_Freeze:
  "m_path (FreezeInt jc s k i) = m_path s"
  "m_path (FreezeBool jc s k b) = m_path s"
  "m_path (FreezeFloat jc s k x) = m_path s"
  "m_path (FreezeString jc s k str) = m_path s"
  by (simp_all add: FreezeInt_def FreezeBool_def FreezeFloat_def FreezeString_def)

lemma is_object_Freeze:
  assumes "is_object (m_json s)"
  shows "is_object (m_json (FreezeInt jc s k i))"
    and "is_object (m_json (FreezeBool jc s k b))"
    and "is_object (m_json (FreezeFloat jc s k x))"
    and "is_object (m_json (FreezeString jc s k str))"
  using assms
  by (simp_all add: m_json_FreezeInt m_json_FreezeBool m_json_FreezeFloat m_json_FreezeString
      is_object_object_add)

lemma ThawInt_FreezeInt:
  "is_object (m_json s) \<Longrightarrow> ThawInt jc (FreezeInt jc s k v) k d = (v, FreezeInt jc s k v)"
  by (simp add: ThawInt_def m_json_FreezeInt get_ex_object_add get_int_new_int)

lemma ThawBool_FreezeBool:
  "is_object (m_json s) \<Longrightarrow> ThawBool jc (FreezeBool jc s k v) k d = (v, FreezeBool jc s k v)"
  by (simp add: ThawBool_def m_json_FreezeBool get_ex_object_add json_object_get_boolean_def
      json_object_new_boolean_def)

lemma ThawFloat_FreezeFloat:
  "is_object (m_json s) \<Longrightarrow>
     ThawFloat jc (FreezeFloat jc s k v) k d = (v, FreezeFloat jc s k v)"
  by (simp add: ThawFloat_def m_json_FreezeFloat get_ex_object_add json_object_get_double_def
      json_object_new_double_def)

lemma ThawString_FreezeString:
  "is_object (m_json s) \<Longrightarrow>
     ThawString jc (FreezeString jc s k v) k d = Inr (c_str v, FreezeString jc s k v)"
  by (simp add: ThawString_def m_json_FreezeString get_ex_object_add json_object_get_string_def
      json_object_new_string_def c_str_c_str)

lemma ThawInt_entry:
  "json_object_object_get_ex (m_json s) (c_str k) = Some (json_object_new_int v) \<Longrightarrow>
     ThawInt jc s k d = (v, s)"
  by (simp add: ThawInt_def get_int_new_int)

lemma ThawBool_entry:
  "json_object_object_get_ex (m_json s) (c_str k) = Some (json_object_new_boolean v) \<Longrightarrow>
     ThawBool jc s k d = (v, s)"
  by (simp add: ThawBool_def json_object_get_boolean_def json_object_new_boolean_def)

lemma snd_ThawInt: "snd (ThawInt jc s k d) = s"
  by (simp add: ThawInt_def split: option.split)

lemma snd_ThawBool: "snd (ThawBool jc s k d) = s"
  by (simp add: ThawBool_def split: option.split)

lemma snd_ThawFloat: "snd (ThawFloat jc s k d) = s"
  by (simp add: ThawFloat_def split: option.split)

text \<open>What a visible window's \<open>FreezePosition\<close> amounts to.\<close>

lemma FreezePosition_visible:
  assumes "is_visible w"
  shows "FreezePosition jc w s key =
     FreezeBool jc
       (FreezeInt jc
          (FreezeInt jc
             (FreezeInt jc (FreezeInt jc s (key @ ''_Left'') (fst (get_position w)))
                (key @ ''_Top'') (snd (get_position w)))
             (key @ ''_Width'') (fst (get_size w)))
          (key @ ''_Height'') (snd (get_size w)))
       (key @ ''_Maximized'') (is_maximized w)"
  using assms by (simp add: FreezePosition_def split: prod.split)

lemma FreezePosition_entries:
  assumes "is_visible w" and "CHR 0x00 \<notin> set key" and "is_object (m_json s)"
  shows "json_object_object_get_ex (m_json (FreezePosition jc w s key)) (key @ ''_Left'') =
           Some (json_object_new_int (fst (get_position w)))"
    and "json_object_object_get_ex (m_json (FreezePosition jc w s key)) (key @ ''_Top'') =
           Some (json_object_new_int (snd (get_position w)))"
    and "json_object_object_get_ex (m_json (FreezePosition jc w s key)) (key @ ''_Width'') =
           Some (json_object_new_int (fst (get_size w)))"
    and "json_object_object_get_ex (m_json (FreezePosition jc w s key)) (key @ ''_Height'') =
           Some (json_object_new_int (snd (get_size w)))"
    and "json_object_object_get_ex (m_json (FreezePosition jc w s key)) (key @ ''_Maximized'') =
           Some (json_object_new_boolean (is_maximized w))"
  using assms(3)
  by (simp_all add: FreezePosition_visible [OF assms(1)] c_str_key_suffix [OF assms(2)]
      m_json_FreezeInt m_json_FreezeBool get_ex_object_add is_object_object_add)

text \<open>What \<open>ThawPosition\<close> amounts to, for any document.\<close>

lemma ThawPosition_eq:
  "ThawPosition jc w s key =
     (w\<lparr>get_position :=
          (fst (ThawInt jc s (key @ ''_Left'') (fst (get_position w))),
           fst (ThawInt jc s (key @ ''_Top'') (snd (get_position w)))),
        get_size :=
          (fst (ThawInt jc s (key @ ''_Width'') (fst (get_size w))),
           fst (ThawInt jc s (key @ ''_Height'') (snd (get_size w)))),
        is_maximized := is_maximized w \<or> fst (ThawBool jc s (key @ ''_Maximized'') False)\<rparr>,
      s)"
proof -
  obtain x y where P: "get_position w = (x, y)" by (cases "get_position w")
  obtain wd ht where S: "get_size w = (wd, ht)" by (cases "get_size w")
  obtain l where L: "ThawInt jc s (key @ ''_Left'') x = (l, s)"
    by (cases "ThawInt jc s (key @ ''_Left'') x") (metis snd_ThawInt snd_conv)
  obtain t where T: "ThawInt jc s (key @ ''_Top'') y = (t, s)"
    by (cases "ThawInt jc s (key @ ''_Top'') y") (metis snd_ThawInt snd_conv)
  obtain w1 where W: "ThawInt jc s (key @ ''_Width'') wd = (w1, s)"
    by (cases "ThawInt jc s (key @ ''_Width'') wd") (metis snd_ThawInt snd_conv)
  obtain h where H: "ThawInt jc s (key @ ''_Height'') ht = (h, s)"
    by (cases "ThawInt jc s (key @ ''_Height'') ht") (metis snd_ThawInt snd_conv)
  obtain m where M: "ThawBool jc s (key @ ''_Maximized'') False = (m, s)"
    by (cases "ThawBool jc s (key @ ''_Maximized'') False") (metis snd_ThawBool snd_conv)
  show ?thesis
    by (cases m) (simp_all add: ThawPosition_def P S L T W H M move_def resize_def maximize_def)
qed

lemma ThawPosition_FreezePosition:
  assumes "is_visible w" and "CHR 0x00 \<notin> set key" and "is_object (m_json s)"
  shows "ThawPosition jc w' (FreezePosition jc w s key) key =
           (w'\<lparr>get_position := get_position w, get_size := get_size w,
               is_maximized := is_maximized w' \<or> is_maximized w\<rparr>,
            FreezePosition jc w s key)"
proof -
  note E = FreezePosition_entries [OF assms, of jc]
  note K = c_str_key_suffix [OF assms(2)]
  have "ThawInt jc (FreezePosition jc w s key) (key @ ''_Left'') d =
          (fst (get_position w), FreezePosition jc w s key)" for d
    by (rule ThawInt_entry) (simp add: K E)
  moreover have "ThawInt jc (FreezePosition jc w s key) (key @ ''_Top'') d =
          (snd (get_position w), FreezePosition jc w s key)" for d
    by (rule ThawInt_entry) (simp add: K E)
  moreover have "ThawInt jc (FreezePosition jc w s key) (key @ ''_Width'') d =
          (fst (get_size w), FreezePosition jc w s key)" for d
    by (rule ThawInt_entry) (simp add: K E)
  moreover have "ThawInt jc (FreezePosition jc w s key) (key @ ''_Height'') d =
          (snd (get_size w), FreezePosition jc w s key)" for d
    by (rule ThawInt_entry) (simp add: K E)
  moreover have "ThawBool jc (FreezePosition jc w s key) (key @ ''_Maximized'') d =
          (is_maximized w, FreezePosition jc w s key)" for d
    by (rule ThawBool_entry) (simp add: K E)
  ultimately show ?thesis
    by (simp add: ThawPosition_eq)
qed

text \<open>A document without a null entry stays so, and no operation on it throws.\<close>

lemma no_null_entry_new_object: "no_null_entry json_object_new_object"
  by (simp add: no_null_entry_def json_object_new_object_def)

lemma no_null_entry_is_object: "no_null_entry jso \<Longrightarrow> is_object jso"
  by (cases jso) (simp_all add: no_null_entry_def is_object_def)

lemma values_update: "snd ` set (AList.update k v entries) \<subseteq> insert v (snd ` set entries)"
  by (induction entries) auto

lemma no_null_entry_object_add:
  assumes "no_null_entry jso" and "v \<noteq> JNull"
  shows "no_null_entry (json_object_object_add jc jso k v)"
proof (cases jso)
  case (JObject entries)
  with assms values_update [of k v entries] show ?thesis
    by (auto simp add: no_null_entry_def json_object_object_add_def)
qed (insert assms, simp_all add: no_null_entry_def)

lemma no_null_entry_Freeze:
  assumes "no_null_entry (m_json s)"
  shows "no_null_entry (m_json (FreezeInt jc s k i))"
    and "no_null_entry (m_json (FreezeBool jc s k b))"
    and "no_null_entry (m_json (FreezeFloat jc s k x))"
    and "no_null_entry (m_json (FreezeString jc s k str))"
  using assms
  by (simp_all add: m_json_FreezeInt m_json_FreezeBool m_json_FreezeFloat m_json_FreezeString
      no_null_entry_object_add json_object_new_int_def json_object_new_boolean_def
      json_object_new_double_def json_object_new_string_def)

lemma ThawString_no_null_entry:
  assumes "no_null_entry (m_json s)"
  shows "\<exists>chars. ThawString jc s k d = Inr (chars, s)"
proof (cases "m_json s")
  case (JObject entries)
  show ?thesis
  proof (cases "map_of entries (c_str k)")
    case None
    with JObject show ?thesis
      by (simp add: ThawString_def json_object_object_get_ex_def)
  next
    case (Some v)
    then have "v \<in> snd ` set entries"
      by (metis map_of_SomeD image_eqI snd_conv)
    with assms JObject have "v \<noteq> JNull"
      by (force simp add: no_null_entry_def)
    then have "json_object_get_string jc v \<noteq> None"
      by (cases v) (simp_all add: json_object_get_string_def)
    with JObject Some show ?thesis
      by (auto simp add: ThawString_def json_object_object_get_ex_def)
  qed
qed (insert assms, simp_all add: no_null_entry_def)

lemma Settings_call_no_null_entry:
  assumes "no_null_entry (m_json s)"
  shows "\<exists>s'. Settings_call jc s c = Inr s' \<and> m_path s' = m_path s
           \<and> no_null_entry (m_json s')"
proof (cases c)
  case (Call_ThawString k d)
  with ThawString_no_null_entry [OF assms, of jc k d] assms show ?thesis
    by auto
qed (insert assms, simp_all add: m_path_Freeze no_null_entry_Freeze snd_ThawInt snd_ThawBool
    snd_ThawFloat)

lemma Settings_calls_no_null_entry:
  "no_null_entry (m_json s) \<Longrightarrow>
     \<exists>s'. Settings_calls jc s cs = Inr s' \<and> m_path s' = m_path s \<and> no_null_entry (m_json s')"
proof (induction cs arbitrary: s)
  case Nil
  then show ?case by simp
next
  case (Cons c cs)
  from Settings_call_no_null_entry [OF Cons.prems, of jc c]
  obtain s1 where 1: "Settings_call jc s c = Inr s1" and 2: "m_path s1 = m_path s"
    and 3: "no_null_entry (m_json s1)"
    by blast
  from Cons.IH [OF 3] 1 2 show ?case
    by auto
qed

text \<open>\<open>GetConfigPath\<close> in two steps: the directory, then the file system.\<close>

lemma IsEmpty_From: "IsEmpty (From x) \<longleftrightarrow> x = []"
  by (simp add: IsEmpty_def From_def)

lemma directory_block:
  "(let configHomeC = c_str (raw dir)
    in case stat sys configHomeC of
         StatErr e \<Rightarrow>
           if e = ENOENT then
             (case mkdir sys configHomeC of
                Some e' \<Rightarrow> (From '''', [CannotMkdir configHomeC e'])
              | None \<Rightarrow> (Join sys dir ''settings.json'', []))
           else (From '''', [CannotStat configHomeC e])
       | StatOk isdir \<Rightarrow>
           if \<not> isdir then (From '''', [NotADirectory configHomeC])
           else (Join sys dir ''settings.json'', [])) =
   (case directory_failure sys dir of
      None \<Rightarrow> (Join sys dir ''settings.json'', [])
    | Some msg \<Rightarrow> (From [], [msg]))"
proof (cases "stat sys (c_str (raw dir))")
  case (StatOk isdir)
  then show ?thesis by (simp add: directory_failure_def)
next
  case (StatErr e)
  then show ?thesis
    by (cases "mkdir sys (c_str (raw dir))") (simp_all add: directory_failure_def)
qed

lemma GetConfigPath_unfold:
  "GetConfigPath sys =
     (case config_dir sys of
        None \<Rightarrow> (From [], [NeitherSet])
      | Some dir \<Rightarrow>
          (case directory_failure sys dir of
             None \<Rightarrow> (Join sys dir ''settings.json'', [])
           | Some msg \<Rightarrow> (From [], [msg])))"
proof (cases "getenv sys ''XDG_CONFIG_HOME''")
  case (Some x)
  then show ?thesis
    unfolding GetConfigPath_def config_dir_def
    by (simp add: directory_block [unfolded Let_def] Let_def IsEmpty_From)
next
  case None
  note X = this
  show ?thesis
  proof (cases "getenv sys ''HOME''")
    case None
    with X show ?thesis by (simp add: GetConfigPath_def config_dir_def)
  next
    case (Some h)
    with X show ?thesis
      unfolding GetConfigPath_def config_dir_def
      by (simp add: directory_block [unfolded Let_def] Let_def)
  qed
qed

lemma config_dir_XDG:
  "getenv sys ''XDG_CONFIG_HOME'' = Some x \<Longrightarrow> x \<noteq> [] \<Longrightarrow>
     config_dir sys = Some (Join sys (From x) ''solvespace'')"
  by (simp add: config_dir_def)

lemma config_dir_HOME:
  "getenv sys ''XDG_CONFIG_HOME'' = None \<Longrightarrow> getenv sys ''HOME'' = Some h \<Longrightarrow>
   \<not> IsEmpty (Join sys (From h) ''.config'') \<Longrightarrow>
     config_dir sys = Some (Join sys (Join sys (From h) ''.config'') ''solvespace'')"
  by (simp add: config_dir_def)

lemma config_dir_None:
  "getenv sys ''XDG_CONFIG_HOME'' = None \<Longrightarrow> getenv sys ''HOME'' = None \<Longrightarrow>
     config_dir sys = None"
  by (simp add: config_dir_def)

lemma delete_empty_path: "IsEmpty (m_path s) \<Longrightarrow> SettingsImplGtk_delete sys s = ([], None)"
  by (simp add: SettingsImplGtk_delete_def)

lemma new_directory_failure:
  assumes "config_dir sys = Some dir" and "directory_failure sys dir = Some msg"
  shows "SettingsImplGtk_new sys =
           (\<lparr>m_path = From [], m_json = json_object_new_object\<rparr>, [msg, WillNotBeSaved])"
  using assms by (simp add: SettingsImplGtk_new_def GetConfigPath_unfold IsEmpty_From)

lemma new_load_failure:
  assumes "GetConfigPath sys = (p, printed)" and "\<not> IsEmpty p"
    and "json_object_from_file sys (c_str (raw p)) = (JNull, e)"
  shows "SettingsImplGtk_new sys =
           (\<lparr>m_path = p, m_json = json_object_new_object\<rparr>,
            printed @ (if e \<noteq> ENOENT then [CannotLoad e] else []))"
  using assms by (simp add: SettingsImplGtk_new_def)

lemma delete_save:
  assumes "\<not> IsEmpty (m_path s)"
  shows "SettingsImplGtk_delete sys s =
     (case json_object_to_file_ext sys (c_str (raw (m_path s))) (m_json s) of
        Some e \<Rightarrow> ([CannotSave e], None)
      | None \<Rightarrow> ([], Some (c_str (raw (m_path s)), m_json s)))"
  using assms by (simp add: SettingsImplGtk_delete_def)

text \<open>The menu item: what the activate handler and \<open>set_active\<close> amount to.\<close>

lemma has_indicator_SetIndicator:
  "has_indicator (gtkMenuItem (SetIndicator item t)) \<longleftrightarrow> t \<noteq> Indicator_NONE"
  by (cases t) (simp_all add: SetIndicator_def set_has_indicator_def set_draw_as_radio_def)

lemma on_activate_eq:
  "on_activate item app =
     (item\<lparr>gtkMenuItem := (gtkMenuItem item)\<lparr>get_active := \<not> get_active (gtkMenuItem item)\<rparr>\<rparr>,
      if synthetic_event (gtkMenuItem item) then app
      else (case onTrigger item of Some callback \<Rightarrow> callback app | None \<Rightarrow> app))"
  by (simp add: on_activate_def CheckMenuItem_on_activate_def Let_def)

lemma set_active_eq:
  "set_active item a app =
     (if get_active (gtkMenuItem item) = a then (item, app)
      else (item\<lparr>gtkMenuItem := (gtkMenuItem item)\<lparr>get_active := a, synthetic_event := False\<rparr>\<rparr>,
            app))"
  by (auto simp add: set_active_def CheckMenuItem_set_active_def on_activate_eq)

lemma has_indicator_kept:
  "has_indicator (gtkMenuItem (fst (set_active item a app))) = has_indicator (gtkMenuItem item)"
  "has_indicator (gtkMenuItem (fst (on_activate item app))) = has_indicator (gtkMenuItem item)"
  "has_indicator (gtkMenuItem (SetEnabled item e)) = has_indicator (gtkMenuItem item)"
  by (simp_all add: set_active_eq on_activate_eq SetEnabled_def set_sensitive_def)


text \<open>The record that \<open>process_pointer_event\<close> hands to the callback.\<close>

lemma process_pointer_event_eq:
  "process_pointer_event receiver type x y state button scroll_delta app =
     (case onMouseEvent receiver of
        Some callback \<Rightarrow>
          callback
            \<lparr>event_type = type, event_x = x, event_y = y,
             shiftDown = (state AND GDK_SHIFT_MASK \<noteq> 0),
             controlDown = (state AND GDK_CONTROL_MASK \<noteq> 0),
             event_button =
               (if button = 1 \<or> state AND GDK_BUTTON1_MASK \<noteq> 0 then Button_LEFT
                else if button = 2 \<or> state AND GDK_BUTTON2_MASK \<noteq> 0 then Button_MIDDLE
                else if button = 3 \<or> state AND GDK_BUTTON3_MASK \<noteq> 0 then Button_RIGHT
                else Button_NONE),
             scrollDelta = scroll_delta\<rparr> app
      | None \<Rightarrow> (False, app))"
  by (simp add: process_pointer_event_def Let_def split: option.split)

subsection \<open>Settings: freezing and thawing\<close>

text \<open>
  Claim C1 says that for every settings store, thawing a key right after freezing a
  value under it returns the value, whatever the default, for integers, booleans,
  floats and strings. Two inputs where it does not. A string goes through
  \<open>value.c_str()\<close>, so a string with a NUL character comes back cut at the NUL: the three
  characters \<open>a\<close>, NUL, \<open>b\<close> frozen under \<open>k\<close> are thawed as \<open>a\<close>. And the constructor
  keeps a loaded document of any JSON type: when the document is the empty array and
  json-c leaves a value that is not an object as it is, the integer 5 frozen under \<open>k\<close>
  is not found, and the default 7 is thawed.
\<close>

theorem Freeze_then_Thaw_counterexample:
  "ThawString json_c0
       (FreezeString json_c0 settings0 ''k'' [CHR ''a'', CHR 0x00, CHR ''b'']) ''k'' ''d''
     \<noteq> Inr ([CHR ''a'', CHR 0x00, CHR ''b''],
            FreezeString json_c0 settings0 ''k'' [CHR ''a'', CHR 0x00, CHR ''b''])
   \<and> fst (ThawInt json_c0 (FreezeInt json_c0 settings_array ''k'' 5) ''k'' 7) \<noteq> 5"
proof
  have "is_object (m_json settings0)"
    by (simp add: settings0_def is_object_new_object)
  then show "ThawString json_c0
       (FreezeString json_c0 settings0 ''k'' [CHR ''a'', CHR 0x00, CHR ''b'']) ''k'' ''d''
     \<noteq> Inr ([CHR ''a'', CHR 0x00, CHR ''b''],
            FreezeString json_c0 settings0 ''k'' [CHR ''a'', CHR 0x00, CHR ''b''])"
    by (simp add: ThawString_FreezeString c_str_def)
  show "fst (ThawInt json_c0 (FreezeInt json_c0 settings_array ''k'' 5) ''k'' 7) \<noteq> 5"
    by (simp add: ThawInt_def FreezeInt_def settings_array_def json_object_object_add_def
        json_object_object_get_ex_def json_c0_def)
qed

text \<open>
  Claim C1, as amended: for every settings store whose document is a JSON object, every
  key, value and default, thawing the key after freezing the value under it returns the
  value for an integer, a boolean and a float, and for a string the part of the value
  before its first NUL character, which is the whole value when it has none. The store
  is the one the freeze left, and \<open>ThawString\<close> does not throw.
\<close>

theorem Freeze_then_Thaw:
  "is_object (m_json s) \<longrightarrow>
     ThawInt jc (FreezeInt jc s key i) key di = (i, FreezeInt jc s key i)
     \<and> ThawBool jc (FreezeBool jc s key b) key db = (b, FreezeBool jc s key b)
     \<and> ThawFloat jc (FreezeFloat jc s key x) key dx = (x, FreezeFloat jc s key x)
     \<and> ThawString jc (FreezeString jc s key str) key ds =
         Inr (c_str str, FreezeString jc s key str)
     \<and> (CHR 0x00 \<notin> set str \<longrightarrow>
          ThawString jc (FreezeString jc s key str) key ds =
            Inr (str, FreezeString jc s key str))"
  by (simp add: ThawInt_FreezeInt ThawBool_FreezeBool ThawFloat_FreezeFloat
      ThawString_FreezeString c_str_no_nul)

text \<open>The amended claim C1 at the key \<open>k\<close> of a new, empty object.\<close>

theorem Freeze_then_Thaw_witness:
  "is_object (m_json settings0)
   \<and> fst (ThawInt json_c0 (FreezeInt json_c0 settings0 ''k'' 4294967295) ''k'' 0) = 4294967295
   \<and> fst (ThawBool json_c0 (FreezeBool json_c0 settings0 ''k'' True) ''k'' False) = True
   \<and> fst (ThawFloat json_c0 (FreezeFloat json_c0 settings0 ''k'' (5 / 2)) ''k'' 0) = 5 / 2
   \<and> CHR 0x00 \<notin> set ''abc''
   \<and> ThawString json_c0 (FreezeString json_c0 settings0 ''k'' ''abc'') ''k'' ''d'' =
       Inr (''abc'', FreezeString json_c0 settings0 ''k'' ''abc'')"
proof -
  have o: "is_object (m_json settings0)"
    by (simp add: settings0_def is_object_new_object)
  show ?thesis
    using o Freeze_then_Thaw [where jc = json_c0 and s = settings0 and key = "''k''"
      and i = 4294967295 and di = 0 and b = True and db = False and x = "5 / 2" and dx = 0
      and str = "''abc''" and ds = "''d''"]
    by (simp add: c_str_def)
qed

text \<open>
  Claim C2 says that for every key that has never been frozen in a store, each Thaw
  operation returns the default. The keys reach json-c through \<open>key.c_str()\<close>: after the
  key of the three characters \<open>a\<close>, NUL, \<open>b\<close> was frozen with the value 1, the key \<open>a\<close>,
  which was never frozen, thaws to 1 and not to the default 7.
\<close>

theorem Thaw_unset_key_counterexample:
  "''a'' \<noteq> [CHR ''a'', CHR 0x00, CHR ''b'']
   \<and> fst (ThawInt json_c0
            (FreezeInt json_c0 settings0 [CHR ''a'', CHR 0x00, CHR ''b''] 1) ''a'' 7) \<noteq> 7"
proof
  show "''a'' \<noteq> [CHR ''a'', CHR 0x00, CHR ''b'']"
    by simp
  have "is_object (m_json settings0)"
    by (simp add: settings0_def is_object_new_object)
  then show "fst (ThawInt json_c0
            (FreezeInt json_c0 settings0 [CHR ''a'', CHR 0x00, CHR ''b''] 1) ''a'' 7) \<noteq> 7"
    by (simp add: ThawInt_def m_json_FreezeInt get_ex_object_add get_int_new_int c_str_def)
qed

text \<open>
  Claim C2, as amended: for every settings store, every default and every key such that
  the document has no entry under the key's C string (the characters of the key before
  its first NUL), each of \<open>ThawInt\<close>, \<open>ThawBool\<close>, \<open>ThawFloat\<close> and \<open>ThawString\<close> returns
  the default and leaves the store as it was. There is no such entry in a new object,
  and none appears in an object when a key with another C string is frozen: so the
  claim holds for a key when no key with the same C string has been frozen.
\<close>

theorem Thaw_unset_key:
  "(json_object_object_get_ex (m_json (s :: 'd SettingsImplGtk)) (c_str key) = None \<longrightarrow>
      ThawInt jc s key di = (di, s) \<and> ThawBool jc s key db = (db, s)
      \<and> ThawFloat jc s key dx = (dx, s) \<and> ThawString jc s key ds = Inr (ds, s))
   \<and> json_object_object_get_ex (json_object_new_object :: 'd json_object) (c_str key) = None
   \<and> (is_object (m_json s) \<and> c_str k' \<noteq> c_str key \<longrightarrow>
        json_object_object_get_ex (m_json (FreezeInt jc s k' i)) (c_str key) =
          json_object_object_get_ex (m_json s) (c_str key)
      \<and> json_object_object_get_ex (m_json (FreezeBool jc s k' b)) (c_str key) =
          json_object_object_get_ex (m_json s) (c_str key)
      \<and> json_object_object_get_ex (m_json (FreezeFloat jc s k' x)) (c_str key) =
          json_object_object_get_ex (m_json s) (c_str key)
      \<and> json_object_object_get_ex (m_json (FreezeString jc s k' str)) (c_str key) =
          json_object_object_get_ex (m_json s) (c_str key))"
  by (simp add: ThawInt_def ThawBool_def ThawFloat_def ThawString_def get_ex_new_object
      m_json_FreezeInt m_json_FreezeBool m_json_FreezeFloat m_json_FreezeString
      get_ex_object_add)

text \<open>
  The amended claim C2 at the key \<open>k\<close> of a store in which only the key \<open>other\<close> has been
  frozen.
\<close>

theorem Thaw_unset_key_witness:
  "json_object_object_get_ex (m_json (FreezeInt json_c0 settings0 ''other'' 5)) (c_str ''k'')
     = None
   \<and> is_object (m_json settings0) \<and> c_str ''other'' \<noteq> c_str ''k''
   \<and> ThawInt json_c0 (FreezeInt json_c0 settings0 ''other'' 5) ''k'' 7 =
        (7, FreezeInt json_c0 settings0 ''other'' 5)
   \<and> ThawBool json_c0 (FreezeInt json_c0 settings0 ''other'' 5) ''k'' True =
        (True, FreezeInt json_c0 settings0 ''other'' 5)
   \<and> ThawFloat json_c0 (FreezeInt json_c0 settings0 ''other'' 5) ''k'' (1 / 4) =
        (1 / 4, FreezeInt json_c0 settings0 ''other'' 5)
   \<and> ThawString json_c0 (FreezeInt json_c0 settings0 ''other'' 5) ''k'' ''d'' =
        Inr (''d'', FreezeInt json_c0 settings0 ''other'' 5)"
proof -
  have k: "is_object (m_json settings0) \<and> c_str ''other'' \<noteq> c_str ''k''"
    by (simp add: c_str_def settings0_def is_object_new_object)
  have n: "json_object_object_get_ex (m_json settings0) (c_str ''k'') = None"
    by (simp add: settings0_def get_ex_new_object)
  have e:
    "json_object_object_get_ex (m_json (FreezeInt json_c0 settings0 ''other'' 5)) (c_str ''k'')
       = None"
    using k n
      Thaw_unset_key [where s = settings0 and key = "''k''" and k' = "''other''" and i = 5
        and jc = json_c0 and di = 7 and db = True and dx = "1 / 4" and ds = "''d''"
        and b = True and x = 0 and str = "[]"]
    by simp
  show ?thesis
    using k e
      Thaw_unset_key [where s = "FreezeInt json_c0 settings0 ''other'' 5" and key = "''k''"
        and jc = json_c0 and di = 7 and db = True and dx = "1 / 4" and ds = "''d''"
        and k' = "''other''" and i = 5 and b = True and x = 0 and str = "[]"]
    by simp
qed

subsection \<open>Window geometry\<close>

text \<open>
  Claim C3 says that for every window and key \<open>k\<close>, \<open>FreezePosition\<close> stores position,
  size and maximized state under \<open>k_Left\<close>, \<open>k_Top\<close>, \<open>k_Width\<close>, \<open>k_Height\<close> and
  \<open>k_Maximized\<close>, and that \<open>ThawPosition\<close> restores them. Four inputs where it does not:
  a window that is not visible stores nothing; a window that is maximized when
  \<open>ThawPosition\<close> runs stays maximized although \<open>false\<close> was stored; a key with a NUL
  character gives the five C keys one and the same name, so that the entry read back
  under \<open>k_Left\<close> is the boolean stored last; and in a store whose document is the empty
  array, with a json-c that leaves a value that is not an object as it is, nothing is
  found under \<open>k_Left\<close>.
\<close>

theorem FreezePosition_ThawPosition_counterexample:
  "json_object_object_get_ex (m_json (FreezePosition json_c0 window_hidden settings0 ''W''))
       (c_str (''W'' @ ''_Left''))
     \<noteq> Some (json_object_new_int (fst (get_position window_hidden)))
   \<and> is_maximized
         (fst (ThawPosition json_c0 window_maximized
                 (FreezePosition json_c0 window_shown settings0 ''W'') ''W''))
     \<noteq> is_maximized window_shown
   \<and> json_object_object_get_ex
         (m_json (FreezePosition json_c0 window_shown settings0 [CHR 0x00]))
         (c_str ([CHR 0x00] @ ''_Left''))
     \<noteq> Some (json_object_new_int (fst (get_position window_shown)))
   \<and> json_object_object_get_ex
         (m_json (FreezePosition json_c0 window_shown settings_array ''W''))
         (c_str (''W'' @ ''_Left''))
     \<noteq> Some (json_object_new_int (fst (get_position window_shown)))"
proof (intro conjI)
  show "json_object_object_get_ex
       (m_json (FreezePosition json_c0 window_hidden settings0 ''W''))
       (c_str (''W'' @ ''_Left''))
     \<noteq> Some (json_object_new_int (fst (get_position window_hidden)))"
    by (simp add: FreezePosition_def window_hidden_def settings0_def get_ex_new_object)
  show "is_maximized
         (fst (ThawPosition json_c0 window_maximized
                 (FreezePosition json_c0 window_shown settings0 ''W'') ''W''))
     \<noteq> is_maximized window_shown"
    by (simp add: ThawPosition_eq window_maximized_def window_shown_def)
  have v: "is_visible window_shown"
    by (simp add: window_shown_def)
  have o: "is_object (m_json settings0)"
    by (simp add: settings0_def is_object_new_object)
  from o show "json_object_object_get_ex
       (m_json (FreezePosition json_c0 window_shown settings0 [CHR 0x00]))
       (c_str ([CHR 0x00] @ ''_Left''))
     \<noteq> Some (json_object_new_int (fst (get_position window_shown)))"
    by (simp add: FreezePosition_visible [OF v] m_json_FreezeBool m_json_FreezeInt
        get_ex_object_add is_object_object_add c_str_def json_object_new_boolean_def
        json_object_new_int_def)
  show "json_object_object_get_ex
         (m_json (FreezePosition json_c0 window_shown settings_array ''W''))
         (c_str (''W'' @ ''_Left''))
     \<noteq> Some (json_object_new_int (fst (get_position window_shown)))"
    by (simp add: FreezePosition_visible [OF v] m_json_FreezeBool m_json_FreezeInt
        settings_array_def json_object_object_add_def json_object_object_get_ex_def
        json_c0_def)
qed

text \<open>
  Claim C3, as amended: for every window that is visible, every key \<open>k\<close> without a NUL
  character and every store whose document is a JSON object, \<open>FreezePosition\<close> stores
  the position and the size as integers under \<open>k_Left\<close>, \<open>k_Top\<close>, \<open>k_Width\<close>,
  \<open>k_Height\<close> and the maximized state as a boolean under \<open>k_Maximized\<close>, and
  \<open>ThawPosition\<close> with the same key moves and resizes a window to them. For every
  window, key and store, \<open>ThawPosition\<close> sets position and size to what \<open>ThawInt\<close>
  returns for the four keys with the window's current geometry as defaults, maximizes
  the window when \<open>ThawBool\<close> returns true for \<open>k_Maximized\<close> with default false, never
  takes a window out of the maximized state, and leaves the store as it was.
\<close>

theorem FreezePosition_ThawPosition:
  "ThawPosition jc w' s key =
     (w'\<lparr>get_position :=
           (fst (ThawInt jc s (key @ ''_Left'') (fst (get_position w'))),
            fst (ThawInt jc s (key @ ''_Top'') (snd (get_position w')))),
         get_size :=
           (fst (ThawInt jc s (key @ ''_Width'') (fst (get_size w'))),
            fst (ThawInt jc s (key @ ''_Height'') (snd (get_size w')))),
         is_maximized :=
           is_maximized w' \<or> fst (ThawBool jc s (key @ ''_Maximized'') False)\<rparr>,
      s)
   \<and> (is_visible w \<and> CHR 0x00 \<notin> set key \<and> is_object (m_json s) \<longrightarrow>
        json_object_object_get_ex (m_json (FreezePosition jc w s key)) (key @ ''_Left'') =
          Some (JInt (sint (fst (get_position w))))
      \<and> json_object_object_get_ex (m_json (FreezePosition jc w s key)) (key @ ''_Top'') =
          Some (JInt (sint (snd (get_position w))))
      \<and> json_object_object_get_ex (m_json (FreezePosition jc w s key)) (key @ ''_Width'') =
          Some (JInt (sint (fst (get_size w))))
      \<and> json_object_object_get_ex (m_json (FreezePosition jc w s key)) (key @ ''_Height'') =
          Some (JInt (sint (snd (get_size w))))
      \<and> json_object_object_get_ex (m_json (FreezePosition jc w s key))
            (key @ ''_Maximized'') =
          Some (JBoolean (is_maximized w))
      \<and> ThawPosition jc w' (FreezePosition jc w s key) key =
          (w'\<lparr>get_position := get_position w, get_size := get_size w,
              is_maximized := is_maximized w' \<or> is_maximized w\<rparr>,
           FreezePosition jc w s key))"
proof (intro conjI impI)
  show "ThawPosition jc w' s key =
     (w'\<lparr>get_position :=
           (fst (ThawInt jc s (key @ ''_Left'') (fst (get_position w'))),
            fst (ThawInt jc s (key @ ''_Top'') (snd (get_position w')))),
         get_size :=
           (fst (ThawInt jc s (key @ ''_Width'') (fst (get_size w'))),
            fst (ThawInt jc s (key @ ''_Height'') (snd (get_size w')))),
         is_maximized :=
           is_maximized w' \<or> fst (ThawBool jc s (key @ ''_Maximized'') False)\<rparr>,
      s)"
    by (rule ThawPosition_eq)
next
  assume "is_visible w \<and> CHR 0x00 \<notin> set key \<and> is_object (m_json s)"
  then have v: "is_visible w" and k: "CHR 0x00 \<notin> set key" and o: "is_object (m_json s)"
    by simp_all
  note E = FreezePosition_entries [OF v k o, of jc, unfolded json_object_new_int_def
      json_object_new_boolean_def]
  show "json_object_object_get_ex (m_json (FreezePosition jc w s key)) (key @ ''_Left'') =
          Some (JInt (sint (fst (get_position w))))"
    by (rule E)
  show "json_object_object_get_ex (m_json (FreezePosition jc w s key)) (key @ ''_Top'') =
          Some (JInt (sint (snd (get_position w))))"
    by (rule E)
  show "json_object_object_get_ex (m_json (FreezePosition jc w s key)) (key @ ''_Width'') =
          Some (JInt (sint (fst (get_size w))))"
    by (rule E)
  show "json_object_object_get_ex (m_json (FreezePosition jc w s key)) (key @ ''_Height'') =
          Some (JInt (sint (snd (get_size w))))"
    by (rule E)
  show "json_object_object_get_ex (m_json (FreezePosition jc w s key))
            (key @ ''_Maximized'') =
          Some (JBoolean (is_maximized w))"
    by (rule E)
  show "ThawPosition jc w' (FreezePosition jc w s key) key =
          (w'\<lparr>get_position := get_position w, get_size := get_size w,
              is_maximized := is_maximized w' \<or> is_maximized w\<rparr>,
           FreezePosition jc w s key)"
    by (rule ThawPosition_FreezePosition [OF v k o])
qed

text \<open>
  The amended claim C3 for a visible window at (100, 50) of size 800 by 600, frozen
  under \<open>W\<close> in a new object and thawed into a hidden window; thawing from an empty
  store changes nothing.
\<close>

theorem FreezePosition_ThawPosition_witness:
  "is_visible window_shown \<and> CHR 0x00 \<notin> set ''W'' \<and> is_object (m_json settings0)
   \<and> json_object_object_get_ex
         (m_json (FreezePosition json_c0 window_shown settings0 ''W'')) ''W_Left''
       = Some (JInt 100)
   \<and> json_object_object_get_ex
         (m_json (FreezePosition json_c0 window_shown settings0 ''W'')) ''W_Maximized''
       = Some (JBoolean False)
   \<and> fst (ThawPosition json_c0
            (window_hidden\<lparr>get_position := (0, 0), get_size := (1, 1)\<rparr>)
            (FreezePosition json_c0 window_shown settings0 ''W'') ''W'') = window_hidden
   \<and> ThawPosition json_c0 window_maximized settings0 ''W'' = (window_maximized, settings0)"
proof -
  have h: "is_visible window_shown \<and> CHR 0x00 \<notin> set ''W'' \<and> is_object (m_json settings0)"
    by (simp add: window_shown_def settings0_def is_object_new_object)
  have d: "ThawInt json_c0 settings0 k x = (x, settings0)"
    "ThawBool json_c0 settings0 k b = (b, settings0)" for k x b
    by (simp_all add: ThawInt_def ThawBool_def settings0_def get_ex_new_object)
  show ?thesis
    using h
      FreezePosition_ThawPosition [where w = window_shown and key = "''W''"
        and s = settings0 and jc = json_c0
        and w' = "window_hidden\<lparr>get_position := (0, 0), get_size := (1, 1)\<rparr>"]
      FreezePosition_ThawPosition [where w = window_shown and key = "''W''"
        and s = settings0 and jc = json_c0 and w' = window_maximized]
    by (simp add: window_shown_def window_hidden_def window_maximized_def d)
qed

text \<open>
  Claim C10: \<open>FreezePosition\<close> of a window that is not visible writes no key and leaves
  the settings store as it was, for every store and key.
\<close>

theorem FreezePosition_invisible:
  "\<not> is_visible w \<Longrightarrow> FreezePosition jc w s key = s"
  by (simp add: FreezePosition_def)

text \<open>Claim C10 for a hidden window and a store that holds a key already.\<close>

theorem FreezePosition_invisible_witness:
  "\<not> is_visible window_hidden
   \<and> FreezePosition json_c0 window_hidden (FreezeInt json_c0 settings0 ''W_Left'' 3) ''W'' =
       FreezeInt json_c0 settings0 ''W_Left'' 3"
proof -
  have h: "\<not> is_visible window_hidden"
    by (simp add: window_hidden_def)
  show ?thesis
    using h
      FreezePosition_invisible [OF h, of json_c0 "FreezeInt json_c0 settings0 ''W_Left'' 3"
        "''W''"]
    by simp
qed

subsection \<open>Settings: the file\<close>

text \<open>
  Claim C7 says that the settings file is \<open>XDG_CONFIG_HOME/solvespace/settings.json\<close> when
  \<open>XDG_CONFIG_HOME\<close> is set, else \<open>HOME/.config/solvespace/settings.json\<close> when \<open>HOME\<close> is
  set, and that no path is produced when neither is. With \<open>XDG_CONFIG_HOME=/x\<close> and a
  regular file at \<open>/x/solvespace\<close> the variable is set, and the path returned is empty.
\<close>

theorem GetConfigPath_environment_counterexample:
  "getenv system_not_a_directory ''XDG_CONFIG_HOME'' = Some ''/x''
   \<and> raw (fst (GetConfigPath system_not_a_directory)) \<noteq> ''/x/solvespace/settings.json''"
  by (simp add: GetConfigPath_def system_not_a_directory_def system_fresh_def From_def
      IsEmpty_def slash_join_def)

text \<open>
  Claim C7, as amended: if \<open>XDG_CONFIG_HOME\<close> is set and not empty, the directory is
  \<open>XDG_CONFIG_HOME\<close> joined with \<open>solvespace\<close>; otherwise, if \<open>XDG_CONFIG_HOME\<close> is not set,
  \<open>HOME\<close> is set and \<open>HOME\<close> joined with \<open>.config\<close> is not the empty path, the directory is
  that path joined with \<open>solvespace\<close>. In both cases the settings file is the directory
  joined with \<open>settings.json\<close>, provided the directory exists as a directory or does not
  exist and \<open>mkdir\<close> creates it; when the directory cannot be used, the empty path is
  returned and one message printed. If neither variable is set, the empty path is
  returned, and the settings built on it are not saved.
\<close>

theorem GetConfigPath_environment:
  "(getenv sys ''XDG_CONFIG_HOME'' = Some x \<and> x \<noteq> []
      \<and> directory_failure sys (Join sys (From x) ''solvespace'') = None \<longrightarrow>
      GetConfigPath sys =
        (Join sys (Join sys (From x) ''solvespace'') ''settings.json'', []))
   \<and> (getenv sys ''XDG_CONFIG_HOME'' = None \<and> getenv sys ''HOME'' = Some h
      \<and> \<not> IsEmpty (Join sys (From h) ''.config'')
      \<and> directory_failure sys (Join sys (Join sys (From h) ''.config'') ''solvespace'') = None \<longrightarrow>
      GetConfigPath sys =
        (Join sys (Join sys (Join sys (From h) ''.config'') ''solvespace'') ''settings.json'',
         []))
   \<and> (getenv sys ''XDG_CONFIG_HOME'' = None \<and> getenv sys ''HOME'' = None \<longrightarrow>
      GetConfigPath sys = (From [], [NeitherSet])
      \<and> IsEmpty (m_path (fst (SettingsImplGtk_new sys)))
      \<and> snd (SettingsImplGtk_delete sys (fst (SettingsImplGtk_new sys))) = None)
   \<and> (config_dir sys = Some dir \<and> directory_failure sys dir = Some msg \<longrightarrow>
      GetConfigPath sys = (From [], [msg]))"
proof (intro conjI impI)
  assume "getenv sys ''XDG_CONFIG_HOME'' = Some x \<and> x \<noteq> []
      \<and> directory_failure sys (Join sys (From x) ''solvespace'') = None"
  then show "GetConfigPath sys =
        (Join sys (Join sys (From x) ''solvespace'') ''settings.json'', [])"
    by (simp add: GetConfigPath_unfold config_dir_XDG)
next
  assume "getenv sys ''XDG_CONFIG_HOME'' = None \<and> getenv sys ''HOME'' = Some h
      \<and> \<not> IsEmpty (Join sys (From h) ''.config'')
      \<and> directory_failure sys (Join sys (Join sys (From h) ''.config'') ''solvespace'') = None"
  then show "GetConfigPath sys =
        (Join sys (Join sys (Join sys (From h) ''.config'') ''solvespace'') ''settings.json'',
         [])"
    by (simp add: GetConfigPath_unfold config_dir_HOME)
next
  assume "getenv sys ''XDG_CONFIG_HOME'' = None \<and> getenv sys ''HOME'' = None"
  then show G: "GetConfigPath sys = (From [], [NeitherSet])"
    by (simp add: GetConfigPath_unfold config_dir_None)
  show E: "IsEmpty (m_path (fst (SettingsImplGtk_new sys)))"
    by (simp add: SettingsImplGtk_new_def G IsEmpty_From)
  show "snd (SettingsImplGtk_delete sys (fst (SettingsImplGtk_new sys))) = None"
    by (simp add: delete_empty_path [OF E])
next
  assume "config_dir sys = Some dir \<and> directory_failure sys dir = Some msg"
  then show "GetConfigPath sys = (From [], [msg])"
    by (simp add: GetConfigPath_unfold)
qed

text \<open>
  The amended claim C7 in four systems: \<open>XDG_CONFIG_HOME=/x\<close> with the directory present,
  only \<open>HOME=/home/u\<close> with the directory to be created, no variable, and
  \<open>XDG_CONFIG_HOME=/x\<close> with a regular file in the way.
\<close>

theorem GetConfigPath_environment_witness:
  "GetConfigPath system_fresh = (From ''/x/solvespace/settings.json'', [])
   \<and> GetConfigPath system_home = (From ''/home/u/.config/solvespace/settings.json'', [])
   \<and> GetConfigPath system_no_environment = (From [], [NeitherSet])
   \<and> snd (SettingsImplGtk_delete system_no_environment
             (fst (SettingsImplGtk_new system_no_environment))) = None
   \<and> GetConfigPath system_not_a_directory = (From [], [NotADirectory ''/x/solvespace''])"
proof -
  have 1: "getenv system_fresh ''XDG_CONFIG_HOME'' = Some ''/x'' \<and> ''/x'' \<noteq> []
      \<and> directory_failure system_fresh (Join system_fresh (From ''/x'') ''solvespace'') = None"
    by (simp add: system_fresh_def directory_failure_def)
  have 2: "getenv system_home ''XDG_CONFIG_HOME'' = None
      \<and> getenv system_home ''HOME'' = Some ''/home/u''
      \<and> \<not> IsEmpty (Join system_home (From ''/home/u'') ''.config'')
      \<and> directory_failure system_home
           (Join system_home (Join system_home (From ''/home/u'') ''.config'') ''solvespace'')
          = None"
    by (simp add: system_home_def system_fresh_def directory_failure_def slash_join_def
        From_def IsEmpty_def)
  have 3: "getenv system_no_environment ''XDG_CONFIG_HOME'' = None
      \<and> getenv system_no_environment ''HOME'' = None"
    by (simp add: system_no_environment_def system_fresh_def)
  have 4: "config_dir system_not_a_directory = Some (From ''/x/solvespace'')
      \<and> directory_failure system_not_a_directory (From ''/x/solvespace'')
          = Some (NotADirectory ''/x/solvespace'')"
    by (simp add: system_not_a_directory_def system_fresh_def config_dir_def
        directory_failure_def slash_join_def From_def c_str_def)
  show ?thesis
    using GetConfigPath_environment [of system_fresh "''/x''" "''/home/u''"
        "From ''/x/solvespace''" "NotADirectory ''/x/solvespace''"]
      GetConfigPath_environment [of system_home "''/x''" "''/home/u''"
        "From ''/x/solvespace''" "NotADirectory ''/x/solvespace''"]
      GetConfigPath_environment [of system_no_environment "''/x''" "''/home/u''"
        "From ''/x/solvespace''" "NotADirectory ''/x/solvespace''"]
      GetConfigPath_environment [of system_not_a_directory "''/x''" "''/home/u''"
        "From ''/x/solvespace''" "NotADirectory ''/x/solvespace''"]
      1 2 3 4
    by (simp add: system_fresh_def system_home_def slash_join_def From_def)
qed

text \<open>
  Claim C5 says that when the configuration directory cannot be created or examined, or
  the settings file cannot be loaded or saved, the failure is only printed, the path is
  left empty so that the settings are not persisted, every operation still works on the
  store in memory, and no exception reaches the caller of a Settings operation. Three
  inputs where it does not hold as stated, all with \<open>XDG_CONFIG_HOME=/x\<close> and the
  directory present. With a settings file that cannot be read, the constructor keeps
  the path, and the destructor writes what was frozen since to the file. With no
  settings file, which fails the load as well, nothing is printed. With a file that
  cannot be written and holds a null entry under \<open>k\<close>, \<open>ThawString\<close> of \<open>k\<close> throws.
\<close>

theorem Settings_failures_counterexample:
  "(json_object_from_file system_unreadable
        (c_str (raw (fst (GetConfigPath system_unreadable)))) = (JNull, 13)
    \<and> \<not> IsEmpty (m_path (fst (SettingsImplGtk_new system_unreadable)))
    \<and> snd (SettingsImplGtk_delete system_unreadable
              (FreezeBool json_c0 (fst (SettingsImplGtk_new system_unreadable)) ''k'' True)) =
        Some (''/x/solvespace/settings.json'', JObject [(''k'', JBoolean True)]))
   \<and> (json_object_from_file system_fresh
        (c_str (raw (fst (GetConfigPath system_fresh)))) = (JNull, ENOENT)
    \<and> snd (SettingsImplGtk_new system_fresh) = [])
   \<and> (fst (SettingsImplGtk_delete system_null_entry
              (fst (SettingsImplGtk_new system_null_entry))) = [CannotSave 28]
    \<and> ThawString json_c0 (fst (SettingsImplGtk_new system_null_entry)) ''k'' ''d'' =
        Inl LogicError)"
proof -
  have G: "GetConfigPath system_unreadable = (From ''/x/solvespace/settings.json'', [])"
    by (simp add: GetConfigPath_unfold config_dir_def directory_failure_def
        system_unreadable_def system_fresh_def slash_join_def From_def)
  have N: "SettingsImplGtk_new system_unreadable =
      (\<lparr>m_path = From ''/x/solvespace/settings.json'', m_json = json_object_new_object\<rparr>,
       [CannotLoad 13])"
    by (simp add: SettingsImplGtk_new_def G IsEmpty_From)
      (simp add: system_unreadable_def system_fresh_def ENOENT_def)
  have L: "json_object_from_file system_unreadable
       (c_str (raw (fst (GetConfigPath system_unreadable)))) = (JNull, 13)"
    by (simp add: system_unreadable_def system_fresh_def)
  have E: "\<not> IsEmpty (m_path (fst (SettingsImplGtk_new system_unreadable)))"
    by (simp add: N IsEmpty_From)
  have D: "snd (SettingsImplGtk_delete system_unreadable
             (FreezeBool json_c0 (fst (SettingsImplGtk_new system_unreadable)) ''k'' True)) =
       Some (''/x/solvespace/settings.json'', JObject [(''k'', JBoolean True)])"
    unfolding N
    by (simp add: SettingsImplGtk_delete_def FreezeBool_def IsEmpty_def From_def c_str_def
        system_unreadable_def system_fresh_def json_object_object_add_def
        json_object_new_object_def json_object_new_boolean_def)
  have G2: "GetConfigPath system_fresh = (From ''/x/solvespace/settings.json'', [])"
    by (simp add: GetConfigPath_unfold config_dir_def directory_failure_def
        system_fresh_def slash_join_def From_def)
  have L2: "json_object_from_file system_fresh
        (c_str (raw (fst (GetConfigPath system_fresh)))) = (JNull, ENOENT)"
    by (simp add: system_fresh_def)
  have P2: "snd (SettingsImplGtk_new system_fresh) = []"
    by (simp add: SettingsImplGtk_new_def G2 IsEmpty_From) (simp add: system_fresh_def)
  have G3: "GetConfigPath system_null_entry = (From ''/x/solvespace/settings.json'', [])"
    by (simp add: GetConfigPath_unfold config_dir_def directory_failure_def
        system_null_entry_def system_disk_full_def system_fresh_def slash_join_def From_def)
  have N3: "SettingsImplGtk_new system_null_entry =
      (\<lparr>m_path = From ''/x/solvespace/settings.json'', m_json = JObject [(''k'', JNull)]\<rparr>,
       [])"
    by (simp add: SettingsImplGtk_new_def G3 IsEmpty_From)
      (simp add: system_null_entry_def system_disk_full_def system_fresh_def)
  have S3: "fst (SettingsImplGtk_delete system_null_entry
              (fst (SettingsImplGtk_new system_null_entry))) = [CannotSave 28]"
    unfolding N3
    by (simp add: SettingsImplGtk_delete_def IsEmpty_From)
      (simp add: system_null_entry_def system_disk_full_def system_fresh_def)
  have T3: "ThawString json_c0 (fst (SettingsImplGtk_new system_null_entry)) ''k'' ''d'' =
        Inl LogicError"
    unfolding N3
    by (simp add: ThawString_def json_object_object_get_ex_def json_object_get_string_def
        c_str_def)
  from L E D L2 P2 S3 T3 show ?thesis
    by blast
qed

text \<open>
  Claim C5, as amended. When the configuration directory cannot be created or examined,
  or is not a directory, the failure is only printed: the constructor prints it, and
  that the settings will not be saved, leaves the path empty and starts from a new,
  empty object; every sequence of Settings operations then succeeds on the store in
  memory without an exception, and the destructor after it writes nothing. When the
  settings file cannot be loaded, the failure is only printed, and not at all when the
  file does not exist: the constructor starts from a new, empty object, and every
  sequence of Settings operations succeeds on the store in memory without an exception;
  but the path is kept, so that the destructor writes the file. When the file cannot be
  saved, the destructor prints the failure and nothing else happens. No Settings
  operation throws on a document that is an object without a null entry, and the
  operations keep the document so.
\<close>

theorem Settings_failures:
  "(config_dir sys = Some dir \<and> directory_failure sys dir = Some msg \<longrightarrow>
      SettingsImplGtk_new sys =
        (\<lparr>m_path = From [], m_json = json_object_new_object\<rparr>, [msg, WillNotBeSaved])
      \<and> (\<exists>s'. Settings_calls jc (fst (SettingsImplGtk_new sys)) cs = Inr s'
             \<and> SettingsImplGtk_delete sys s' = ([], None)))
   \<and> (GetConfigPath sys = (p, printed) \<and> \<not> IsEmpty p
      \<and> json_object_from_file sys (c_str (raw p)) = (JNull, e) \<longrightarrow>
      SettingsImplGtk_new sys =
        (\<lparr>m_path = p, m_json = json_object_new_object\<rparr>,
         printed @ (if e \<noteq> ENOENT then [CannotLoad e] else []))
      \<and> (\<exists>s'. Settings_calls jc (fst (SettingsImplGtk_new sys)) cs = Inr s'
             \<and> m_path s' = p))
   \<and> (\<not> IsEmpty (m_path s)
      \<and> json_object_to_file_ext sys (c_str (raw (m_path s))) (m_json s) = Some e' \<longrightarrow>
      SettingsImplGtk_delete sys s = ([CannotSave e'], None))
   \<and> (\<not> IsEmpty (m_path s)
      \<and> json_object_to_file_ext sys (c_str (raw (m_path s))) (m_json s) = None \<longrightarrow>
      SettingsImplGtk_delete sys s = ([], Some (c_str (raw (m_path s)), m_json s)))
   \<and> (no_null_entry (m_json s) \<longrightarrow>
        (\<exists>s'. Settings_calls jc s cs = Inr s' \<and> m_path s' = m_path s
           \<and> no_null_entry (m_json s')))"
proof (intro conjI impI)
  assume a: "config_dir sys = Some dir \<and> directory_failure sys dir = Some msg"
  then show N: "SettingsImplGtk_new sys =
        (\<lparr>m_path = From [], m_json = json_object_new_object\<rparr>, [msg, WillNotBeSaved])"
    by (simp add: new_directory_failure)
  from Settings_calls_no_null_entry [of "fst (SettingsImplGtk_new sys)" jc cs]
  obtain s' where "Settings_calls jc (fst (SettingsImplGtk_new sys)) cs = Inr s'"
    and "m_path s' = From []"
    by (auto simp add: N no_null_entry_new_object)
  then show "\<exists>s'. Settings_calls jc (fst (SettingsImplGtk_new sys)) cs = Inr s'
             \<and> SettingsImplGtk_delete sys s' = ([], None)"
    by (auto simp add: delete_empty_path IsEmpty_From)
next
  assume "GetConfigPath sys = (p, printed) \<and> \<not> IsEmpty p
      \<and> json_object_from_file sys (c_str (raw p)) = (JNull, e)"
  then show N: "SettingsImplGtk_new sys =
        (\<lparr>m_path = p, m_json = json_object_new_object\<rparr>,
         printed @ (if e \<noteq> ENOENT then [CannotLoad e] else []))"
    by (simp add: new_load_failure)
  from Settings_calls_no_null_entry [of "fst (SettingsImplGtk_new sys)" jc cs]
  show "\<exists>s'. Settings_calls jc (fst (SettingsImplGtk_new sys)) cs = Inr s' \<and> m_path s' = p"
    by (auto simp add: N no_null_entry_new_object)
next
  assume "\<not> IsEmpty (m_path s)
      \<and> json_object_to_file_ext sys (c_str (raw (m_path s))) (m_json s) = Some e'"
  then show "SettingsImplGtk_delete sys s = ([CannotSave e'], None)"
    by (simp add: delete_save)
next
  assume "\<not> IsEmpty (m_path s)
      \<and> json_object_to_file_ext sys (c_str (raw (m_path s))) (m_json s) = None"
  then show "SettingsImplGtk_delete sys s = ([], Some (c_str (raw (m_path s)), m_json s))"
    by (simp add: delete_save)
next
  assume "no_null_entry (m_json s)"
  then show "\<exists>s'. Settings_calls jc s cs = Inr s' \<and> m_path s' = m_path s
           \<and> no_null_entry (m_json s')"
    by (rule Settings_calls_no_null_entry)
qed

text \<open>
  The amended claim C5 in four systems: a regular file in place of the directory, a
  settings file that cannot be read, a file that cannot be written, and no failure; in
  the first two, a string is frozen and thawed again.
\<close>

theorem Settings_failures_witness:
  "SettingsImplGtk_new system_not_a_directory =
     (\<lparr>m_path = From [], m_json = json_object_new_object\<rparr>,
      [NotADirectory ''/x/solvespace'', WillNotBeSaved])
   \<and> (\<exists>s'. Settings_calls json_c0 (fst (SettingsImplGtk_new system_not_a_directory))
               [Call_FreezeString ''k'' ''v'', Call_ThawString ''k'' ''d''] = Inr s'
          \<and> SettingsImplGtk_delete system_not_a_directory s' = ([], None))
   \<and> SettingsImplGtk_new system_unreadable =
     (\<lparr>m_path = From ''/x/solvespace/settings.json'', m_json = json_object_new_object\<rparr>,
      [CannotLoad 13])
   \<and> (\<exists>s'. Settings_calls json_c0 (fst (SettingsImplGtk_new system_unreadable))
               [Call_FreezeString ''k'' ''v'', Call_ThawString ''k'' ''d''] = Inr s'
          \<and> m_path s' = From ''/x/solvespace/settings.json'')
   \<and> SettingsImplGtk_delete system_disk_full
        \<lparr>m_path = From ''/x/solvespace/settings.json'', m_json = json_object_new_object\<rparr> =
     ([CannotSave 28], None)
   \<and> SettingsImplGtk_delete system_fresh
        \<lparr>m_path = From ''/x/solvespace/settings.json'', m_json = json_object_new_object\<rparr> =
     ([], Some (''/x/solvespace/settings.json'', json_object_new_object))"
proof -
  let ?s = "\<lparr>m_path = From ''/x/solvespace/settings.json'',
             m_json = (json_object_new_object :: real json_object)\<rparr>"
  let ?cs = "[Call_FreezeString ''k'' ''v'', Call_ThawString ''k'' ''d'' :: real call]"
  have 1: "config_dir system_not_a_directory = Some (From ''/x/solvespace'')
      \<and> directory_failure system_not_a_directory (From ''/x/solvespace'')
          = Some (NotADirectory ''/x/solvespace'')"
    by (simp add: system_not_a_directory_def system_fresh_def config_dir_def
        directory_failure_def slash_join_def From_def c_str_def)
  have G: "GetConfigPath system_unreadable = (From ''/x/solvespace/settings.json'', [])"
    by (simp add: GetConfigPath_unfold config_dir_def directory_failure_def
        system_unreadable_def system_fresh_def slash_join_def From_def)
  have 3: "GetConfigPath system_unreadable = (From ''/x/solvespace/settings.json'', [])
      \<and> \<not> IsEmpty (From ''/x/solvespace/settings.json'')
      \<and> json_object_from_file system_unreadable
            (c_str (raw (From ''/x/solvespace/settings.json''))) = (JNull, 13)"
    by (simp add: G IsEmpty_From) (simp add: system_unreadable_def system_fresh_def)
  have 4: "\<not> IsEmpty (m_path ?s)
      \<and> json_object_to_file_ext system_disk_full (c_str (raw (m_path ?s))) (m_json ?s)
          = Some 28"
    by (simp add: IsEmpty_From) (simp add: system_disk_full_def system_fresh_def)
  have 5: "\<not> IsEmpty (m_path ?s)
      \<and> json_object_to_file_ext system_fresh (c_str (raw (m_path ?s))) (m_json ?s) = None"
    by (simp add: IsEmpty_From) (simp add: system_fresh_def)
  have 6: "no_null_entry (m_json ?s)"
    by (simp add: no_null_entry_new_object)
  have c: "c_str (raw (From ''/x/solvespace/settings.json'')) = ''/x/solvespace/settings.json''"
    by (simp add: From_def c_str_def)
  note T = Settings_failures [where jc = json_c0 and cs = ?cs
      and dir = "From ''/x/solvespace''" and msg = "NotADirectory ''/x/solvespace''"
      and p = "From ''/x/solvespace/settings.json''" and printed = "[]" and e = 13]
  have n: "SettingsImplGtk_new system_not_a_directory =
       (\<lparr>m_path = From [], m_json = json_object_new_object\<rparr>,
        [NotADirectory ''/x/solvespace'', WillNotBeSaved])
     \<and> (\<exists>s'. Settings_calls json_c0 (fst (SettingsImplGtk_new system_not_a_directory)) ?cs
               = Inr s'
          \<and> SettingsImplGtk_delete system_not_a_directory s' = ([], None))"
    using 1 T [where sys = system_not_a_directory and s = ?s and e' = 28]
    by blast
  have u: "SettingsImplGtk_new system_unreadable = (?s, [CannotLoad 13])
     \<and> (\<exists>s'. Settings_calls json_c0 (fst (SettingsImplGtk_new system_unreadable)) ?cs = Inr s'
          \<and> m_path s' = From ''/x/solvespace/settings.json'')"
  proof -
    have l: "[] @ (if (13 :: nat) \<noteq> ENOENT then [CannotLoad 13] else []) = [CannotLoad 13]"
      by (simp add: ENOENT_def)
    from 3 T [where sys = system_unreadable and s = ?s and e' = 28, unfolded l]
    show ?thesis
      by blast
  qed
  have f: "SettingsImplGtk_delete system_disk_full ?s = ([CannotSave 28], None)"
    using 4 T [where sys = system_disk_full and s = ?s and e' = 28]
    by blast
  have g: "SettingsImplGtk_delete system_fresh ?s =
      ([], Some (''/x/solvespace/settings.json'', json_object_new_object))"
    using 5 c T [where sys = system_fresh and s = ?s and e' = 28]
    by simp
  have "\<exists>s'. Settings_calls json_c0 ?s ?cs = Inr s' \<and> m_path s' = m_path ?s
      \<and> no_null_entry (m_json s')"
    using 6 T [where sys = system_fresh and s = ?s and e' = 28]
    by blast
  with n u f g show ?thesis
    by blast
qed

subsection \<open>Pointer events\<close>

text \<open>
  Claim C4 says that for every native pointer event the translation layer builds the
  mouse-event record and calls the window's \<open>onMouseEvent\<close> callback, reports the
  callback's result as whether the event was consumed, and reports false when there is
  no callback. Four events where the handlers do otherwise. The third press of a triple
  click goes to the base class, and a scroll to the right is reported as not consumed:
  the callback of the recording window, which records every event it is given, records
  neither. A motion event on a window without a callback is reported as consumed when
  the base class says so; and so is one that the callback did not consume.
\<close>

theorem pointer_event_handlers_counterexample:
  "(onMouseEvent recording_window \<noteq> None
    \<and> on_button_press_event recording_window False triple_press [] = (False, [])
    \<and> on_scroll_event recording_window True scroll_right [] = (False, []))
   \<and> (onMouseEvent deaf_window = None
    \<and> on_motion_notify_event deaf_window True plain_motion [] = (True, []))
   \<and> (fst (process_pointer_event recording_window MOTION 3 4 0 0 0 []) = False
    \<and> fst (on_motion_notify_event recording_window True plain_motion []) = True)"
  by (simp add: recording_window_def deaf_window_def triple_press_def scroll_right_def
      plain_motion_def on_button_press_event_def on_scroll_event_def
      on_motion_notify_event_def process_pointer_event_eq GDK_BUTTON1_MASK_def
      GDK_BUTTON2_MASK_def GDK_BUTTON3_MASK_def)

text \<open>
  Claim C4, as amended. For every call, \<open>process_pointer_event\<close> builds the mouse-event
  record (type, coordinates, button, shift and control modifiers, scroll delta) and
  calls the window's \<open>onMouseEvent\<close> callback with it, returning the boolean the callback
  returns; when no callback is registered it returns false and the application is left
  as it was. The button is the left one when the button number is 1 or the state has
  the mask of button 1, else the middle one for 2, else the right one for 3, else none.
  The handlers hand every motion event, every single and double button press, every
  button release, every scroll event with a negative \<open>delta_y\<close> or the direction up
  (delta 1), every other scroll event with a positive \<open>delta_y\<close> or the direction down
  (delta - 1) and every leave event to \<open>process_pointer_event\<close>, and report the event
  as consumed when it returns true, and as the base class does otherwise. Any other
  button press goes to the base class and any other scroll event is reported as not
  consumed, both without a record and without a call of the callback.
\<close>

theorem pointer_event_handlers:
  "process_pointer_event (receiver :: ('d::{zero,ord}, 'a) Window) type x y state button
       scroll_delta app =
     (case onMouseEvent receiver of
        Some callback \<Rightarrow>
          callback
            \<lparr>event_type = type, event_x = x, event_y = y,
             shiftDown = (state AND GDK_SHIFT_MASK \<noteq> 0),
             controlDown = (state AND GDK_CONTROL_MASK \<noteq> 0),
             event_button =
               (if button = 1 \<or> state AND GDK_BUTTON1_MASK \<noteq> 0 then Button_LEFT
                else if button = 2 \<or> state AND GDK_BUTTON2_MASK \<noteq> 0 then Button_MIDDLE
                else if button = 3 \<or> state AND GDK_BUTTON3_MASK \<noteq> 0 then Button_RIGHT
                else Button_NONE),
             scrollDelta = scroll_delta\<rparr> app
      | None \<Rightarrow> (False, app))
   \<and> on_motion_notify_event receiver base m app =
       (fst (process_pointer_event receiver MOTION (motion_x m) (motion_y m)
               (motion_state m) 0 0 app) \<or> base,
        snd (process_pointer_event receiver MOTION (motion_x m) (motion_y m)
               (motion_state m) 0 0 app))
   \<and> (button_type b = GDK_BUTTON_PRESS \<longrightarrow>
        on_button_press_event receiver base b app =
          (fst (process_pointer_event receiver PRESS (button_x b) (button_y b)
                  (button_state b) (button_button b) 0 app) \<or> base,
           snd (process_pointer_event receiver PRESS (button_x b) (button_y b)
                  (button_state b) (button_button b) 0 app)))
   \<and> (button_type b = GDK_2BUTTON_PRESS \<longrightarrow>
        on_button_press_event receiver base b app =
          (fst (process_pointer_event receiver DBL_PRESS (button_x b) (button_y b)
                  (button_state b) (button_button b) 0 app) \<or> base,
           snd (process_pointer_event receiver DBL_PRESS (button_x b) (button_y b)
                  (button_state b) (button_button b) 0 app)))
   \<and> (button_type b \<noteq> GDK_BUTTON_PRESS \<and> button_type b \<noteq> GDK_2BUTTON_PRESS \<longrightarrow>
        on_button_press_event receiver base b app = (base, app))
   \<and> on_button_release_event receiver base b app =
       (fst (process_pointer_event receiver RELEASE (button_x b) (button_y b)
               (button_state b) (button_button b) 0 app) \<or> base,
        snd (process_pointer_event receiver RELEASE (button_x b) (button_y b)
               (button_state b) (button_button b) 0 app))
   \<and> (scroll_delta_y sc < 0 \<or> scroll_direction sc = GDK_SCROLL_UP \<longrightarrow>
        on_scroll_event receiver base sc app =
          (fst (process_pointer_event receiver SCROLL_VERT (scroll_x sc) (scroll_y sc)
                  (scroll_state sc) 0 1 app) \<or> base,
           snd (process_pointer_event receiver SCROLL_VERT (scroll_x sc) (scroll_y sc)
                  (scroll_state sc) 0 1 app)))
   \<and> (\<not> (scroll_delta_y sc < 0 \<or> scroll_direction sc = GDK_SCROLL_UP)
      \<and> (scroll_delta_y sc > 0 \<or> scroll_direction sc = GDK_SCROLL_DOWN) \<longrightarrow>
        on_scroll_event receiver base sc app =
          (fst (process_pointer_event receiver SCROLL_VERT (scroll_x sc) (scroll_y sc)
                  (scroll_state sc) 0 (- 1) app) \<or> base,
           snd (process_pointer_event receiver SCROLL_VERT (scroll_x sc) (scroll_y sc)
                  (scroll_state sc) 0 (- 1) app)))
   \<and> (\<not> (scroll_delta_y sc < 0 \<or> scroll_direction sc = GDK_SCROLL_UP)
      \<and> \<not> (scroll_delta_y sc > 0 \<or> scroll_direction sc = GDK_SCROLL_DOWN) \<longrightarrow>
        on_scroll_event receiver base sc app = (False, app))
   \<and> on_leave_notify_event receiver base c app =
       (fst (process_pointer_event receiver LEAVE (crossing_x c) (crossing_y c)
               (crossing_state c) 0 0 app) \<or> base,
        snd (process_pointer_event receiver LEAVE (crossing_x c) (crossing_y c)
               (crossing_state c) 0 0 app))"
proof (intro conjI impI)
  show "process_pointer_event receiver type x y state button scroll_delta app =
     (case onMouseEvent receiver of
        Some callback \<Rightarrow>
          callback
            \<lparr>event_type = type, event_x = x, event_y = y,
             shiftDown = (state AND GDK_SHIFT_MASK \<noteq> 0),
             controlDown = (state AND GDK_CONTROL_MASK \<noteq> 0),
             event_button =
               (if button = 1 \<or> state AND GDK_BUTTON1_MASK \<noteq> 0 then Button_LEFT
                else if button = 2 \<or> state AND GDK_BUTTON2_MASK \<noteq> 0 then Button_MIDDLE
                else if button = 3 \<or> state AND GDK_BUTTON3_MASK \<noteq> 0 then Button_RIGHT
                else Button_NONE),
             scrollDelta = scroll_delta\<rparr> app
      | None \<Rightarrow> (False, app))"
    by (rule process_pointer_event_eq)
qed (auto simp add: on_motion_notify_event_def on_button_press_event_def
    on_button_release_event_def on_scroll_event_def on_leave_notify_event_def
    split: prod.split)

text \<open>
  The amended claim C4 on the recording window with a base class that answers false:
  a single and a double press of button 1, the third press of a triple click, a scroll
  with a negative \<open>delta_y\<close>, a scroll down and a scroll to the right.
\<close>

theorem pointer_event_handlers_witness:
  "button_type single_press = GDK_BUTTON_PRESS
   \<and> on_button_press_event recording_window False single_press [] =
       (True,
        [\<lparr>event_type = PRESS, event_x = 10, event_y = 20, shiftDown = False,
          controlDown = False, event_button = Button_LEFT, scrollDelta = 0\<rparr>])
   \<and> on_button_press_event recording_window False
         (single_press\<lparr>button_type := GDK_2BUTTON_PRESS\<rparr>) [] =
       (True,
        [\<lparr>event_type = DBL_PRESS, event_x = 10, event_y = 20, shiftDown = False,
          controlDown = False, event_button = Button_LEFT, scrollDelta = 0\<rparr>])
   \<and> on_button_press_event recording_window False triple_press [] = (False, [])
   \<and> on_scroll_event recording_window False (scroll_right\<lparr>scroll_delta_y := - 1\<rparr>) [] =
       (False,
        [\<lparr>event_type = SCROLL_VERT, event_x = 1, event_y = 2, shiftDown = False,
          controlDown = False, event_button = Button_NONE, scrollDelta = 1\<rparr>])
   \<and> on_scroll_event recording_window False scroll_down [] =
       (False,
        [\<lparr>event_type = SCROLL_VERT, event_x = 1, event_y = 2, shiftDown = False,
          controlDown = False, event_button = Button_NONE, scrollDelta = - 1\<rparr>])
   \<and> on_scroll_event recording_window False scroll_right [] = (False, [])"
proof -
  note T = pointer_event_handlers [where receiver = recording_window and base = False
      and app = "[]" and type = PRESS and x = 10 and y = 20 and state = 0 and button = 1
      and scroll_delta = 0 and m = plain_motion
      and c = "\<lparr>crossing_x = 0, crossing_y = 0, crossing_state = 0\<rparr>"]
  note D = recording_window_def single_press_def triple_press_def scroll_right_def
    scroll_down_def process_pointer_event_eq GDK_SHIFT_MASK_def GDK_CONTROL_MASK_def
    GDK_BUTTON1_MASK_def GDK_BUTTON2_MASK_def GDK_BUTTON3_MASK_def
  have 1: "button_type single_press = GDK_BUTTON_PRESS"
    by (simp add: single_press_def triple_press_def)
  have a: "on_button_press_event recording_window False single_press [] =
       (True,
        [\<lparr>event_type = PRESS, event_x = 10, event_y = 20, shiftDown = False,
          controlDown = False, event_button = Button_LEFT, scrollDelta = 0\<rparr>])"
    using 1 T [where b = single_press and sc = scroll_right]
    by (simp add: D)
  have b: "on_button_press_event recording_window False
         (single_press\<lparr>button_type := GDK_2BUTTON_PRESS\<rparr>) [] =
       (True,
        [\<lparr>event_type = DBL_PRESS, event_x = 10, event_y = 20, shiftDown = False,
          controlDown = False, event_button = Button_LEFT, scrollDelta = 0\<rparr>])"
    using T [where b = "single_press\<lparr>button_type := GDK_2BUTTON_PRESS\<rparr>"
        and sc = scroll_right]
    by (simp add: D)
  have c: "on_button_press_event recording_window False triple_press [] = (False, [])"
    using T [where b = triple_press and sc = scroll_right]
    by (simp add: D)
  have d: "on_scroll_event recording_window False (scroll_right\<lparr>scroll_delta_y := - 1\<rparr>) []
      = (False,
        [\<lparr>event_type = SCROLL_VERT, event_x = 1, event_y = 2, shiftDown = False,
          controlDown = False, event_button = Button_NONE, scrollDelta = 1\<rparr>])"
    using T [where b = triple_press and sc = "scroll_right\<lparr>scroll_delta_y := - 1\<rparr>"]
    by (simp add: D)
  have e: "on_scroll_event recording_window False scroll_down [] =
       (False,
        [\<lparr>event_type = SCROLL_VERT, event_x = 1, event_y = 2, shiftDown = False,
          controlDown = False, event_button = Button_NONE, scrollDelta = - 1\<rparr>])"
    using T [where b = triple_press and sc = scroll_down]
    by (simp add: D)
  have f: "on_scroll_event recording_window False scroll_right [] = (False, [])"
    using T [where b = triple_press and sc = scroll_right]
    by (simp add: D)
  from 1 a b c d e f show ?thesis
    by blast
qed

subsection \<open>Message dialogs\<close>

text \<open>
  Claim C6: \<open>AddButton\<close> fails its assertion when called with \<open>Response::NONE\<close> and
  succeeds for every other response; \<open>RunModal\<close> fails its assertion exactly when the
  dialog reports a response other than OK, YES, NO, CANCEL, NONE, CLOSE or DELETE_EVENT,
  and returns a response for each of these seven.
\<close>

theorem MessageDialog_assertions:
  "AddButton d name Response_NONE isDefault = Inl (AssertFailure ''Invalid response'')
   \<and> (response \<noteq> Response_NONE \<longrightarrow> (\<exists>d'. AddButton d name response isDefault = Inr d'))
   \<and> (RunModal r = Inl (AssertFailure ''Unexpected response'') \<longleftrightarrow>
        r \<notin> {RESPONSE_OK, RESPONSE_YES, RESPONSE_NO, RESPONSE_CANCEL, RESPONSE_NONE,
              RESPONSE_CLOSE, RESPONSE_DELETE_EVENT})
   \<and> (r \<in> {RESPONSE_OK, RESPONSE_YES, RESPONSE_NO, RESPONSE_CANCEL, RESPONSE_NONE,
             RESPONSE_CLOSE, RESPONSE_DELETE_EVENT} \<longrightarrow>
        (\<exists>answer. RunModal r = Inr answer))"
  by (cases response) (auto simp add: AddButton_def RunModal_def Let_def)

text \<open>
  Claim C6 for a default button \<open>&Yes\<close> added to a new dialog, for the response id of
  YES, and for the response id - 3 (\<open>RESPONSE_ACCEPT\<close>) that no button of the dialog has.
\<close>

theorem MessageDialog_assertions_witness:
  "Response_YES \<noteq> Response_NONE
   \<and> AddButton MessageDialogImplGtk_new ''&Yes'' Response_YES True =
       Inr \<lparr>dialog_buttons = [(''_Yes'', - 8)], default_response = Some (- 8)\<rparr>
   \<and> AddButton MessageDialogImplGtk_new ''&Yes'' Response_NONE True =
       Inl (AssertFailure ''Invalid response'')
   \<and> RunModal (- 8) = Inr Response_YES
   \<and> RunModal (- 3) = Inl (AssertFailure ''Unexpected response'')"
proof -
  have m: "RESPONSE_YES \<in> {RESPONSE_OK, RESPONSE_YES, RESPONSE_NO, RESPONSE_CANCEL,
      RESPONSE_NONE, RESPONSE_CLOSE, RESPONSE_DELETE_EVENT}"
    by simp
  have n: "- 3 \<notin> {RESPONSE_OK, RESPONSE_YES, RESPONSE_NO, RESPONSE_CANCEL, RESPONSE_NONE,
      RESPONSE_CLOSE, RESPONSE_DELETE_EVENT}"
    by (simp add: RESPONSE_OK_def RESPONSE_YES_def RESPONSE_NO_def RESPONSE_CANCEL_def
        RESPONSE_NONE_def RESPONSE_CLOSE_def RESPONSE_DELETE_EVENT_def)
  have a: "AddButton MessageDialogImplGtk_new ''&Yes'' Response_YES True =
       Inr \<lparr>dialog_buttons = [(''_Yes'', - 8)], default_response = Some (- 8)\<rparr>"
    using MessageDialog_assertions [of MessageDialogImplGtk_new "''&Yes''" True Response_YES
        RESPONSE_YES]
    by (simp add: AddButton_def MessageDialogImplGtk_new_def add_button_def
        set_default_response_def PrepareMnemonics_def RESPONSE_YES_def)
  have y: "RunModal (- 8) = Inr Response_YES"
    using m MessageDialog_assertions [of MessageDialogImplGtk_new "''&Yes''" True Response_YES
        RESPONSE_YES]
    by (simp add: RunModal_def RESPONSE_OK_def RESPONSE_YES_def)
  show ?thesis
    using n a y
      MessageDialog_assertions [of MessageDialogImplGtk_new "''&Yes''" True Response_YES "- 3"]
    by simp
qed

subsection \<open>Menu items\<close>

text \<open>
  Claim C8: \<open>SetActive\<close> fails its assertion exactly when the item has no indicator, and
  goes on to \<open>set_active\<close> otherwise. The item has an indicator exactly when
  \<open>SetIndicator\<close> was last called with \<open>CHECK_MARK\<close> or \<open>RADIO_MARK\<close>: a new item has none,
  \<open>SetIndicator\<close> sets the flag so, and \<open>set_active\<close>, the activate handler and
  \<open>SetEnabled\<close> keep it.
\<close>

theorem SetActive_precondition:
  "(SetActive (item :: 'a MenuItemImplGtk) a app =
        Inl (AssertFailure ''Cannot change state of a menu item without indicator'')
      \<longleftrightarrow> \<not> has_indicator (gtkMenuItem item))
   \<and> (has_indicator (gtkMenuItem item) \<longrightarrow> SetActive item a app = Inr (set_active item a app))
   \<and> (has_indicator (gtkMenuItem (SetIndicator item t)) \<longleftrightarrow> t = CHECK_MARK \<or> t = RADIO_MARK)
   \<and> SetActive (SetIndicator item Indicator_NONE) a app =
       Inl (AssertFailure ''Cannot change state of a menu item without indicator'')
   \<and> SetActive (SetIndicator item CHECK_MARK) a app =
       Inr (set_active (SetIndicator item CHECK_MARK) a app)
   \<and> SetActive (SetIndicator item RADIO_MARK) a app =
       Inr (set_active (SetIndicator item RADIO_MARK) a app)
   \<and> \<not> has_indicator (gtkMenuItem (MenuItemImplGtk_new :: 'a MenuItemImplGtk))
   \<and> has_indicator (gtkMenuItem (fst (set_active item a app))) = has_indicator (gtkMenuItem item)
   \<and> has_indicator (gtkMenuItem (fst (on_activate item app))) = has_indicator (gtkMenuItem item)
   \<and> has_indicator (gtkMenuItem (SetEnabled item e)) = has_indicator (gtkMenuItem item)"
  by (cases t)
    (simp_all add: SetActive_def has_indicator_SetIndicator has_indicator_kept
      MenuItemImplGtk_new_def GtkMenuItem_new_def)

text \<open>
  Claim C8 for a new item, which has no indicator, and for the same item after
  \<open>SetIndicator\<close> with \<open>CHECK_MARK\<close>.
\<close>

theorem SetActive_precondition_witness:
  "\<not> has_indicator (gtkMenuItem counting_item)
   \<and> SetActive counting_item True 0 =
       Inl (AssertFailure ''Cannot change state of a menu item without indicator'')
   \<and> has_indicator (gtkMenuItem (SetIndicator counting_item CHECK_MARK))
   \<and> SetActive (SetIndicator counting_item CHECK_MARK) True 0 =
       Inr (set_active (SetIndicator counting_item CHECK_MARK) True 0)"
proof -
  have n: "\<not> has_indicator (gtkMenuItem counting_item)"
    by (simp add: counting_item_def MenuItemImplGtk_new_def GtkMenuItem_new_def)
  have h: "has_indicator (gtkMenuItem (SetIndicator counting_item CHECK_MARK))"
    using SetActive_precondition [of counting_item True 0 CHECK_MARK True]
    by simp
  show ?thesis
    using n h SetActive_precondition [of counting_item True 0 CHECK_MARK True]
      SetActive_precondition [of "SetIndicator counting_item CHECK_MARK" True 0 CHECK_MARK True]
    by simp
qed

text \<open>
  Claim C9: \<open>SetActive\<close> never runs the \<open>onTrigger\<close> callback (the application is left as
  it was), brings the item to the state asked for, and changes nothing at all when the
  item is in that state already. The activate handler runs \<open>onTrigger\<close>, when one is
  registered, exactly when the activation is not marked synthetic; between calls the
  mark is off, since \<open>SetActive\<close> leaves it off.
\<close>

theorem SetActive_synthetic:
  "(SetActive (item :: 'a MenuItemImplGtk) a app = Inr (item', app') \<longrightarrow>
      app' = app \<and> get_active (gtkMenuItem item') = a \<and> onTrigger item' = onTrigger item
      \<and> (\<not> synthetic_event (gtkMenuItem item) \<longrightarrow> \<not> synthetic_event (gtkMenuItem item')))
   \<and> (has_indicator (gtkMenuItem item) \<and> get_active (gtkMenuItem item) = a \<longrightarrow>
      SetActive item a app = Inr (item, app))
   \<and> (\<not> synthetic_event (gtkMenuItem item) \<longrightarrow>
      snd (on_activate item app) =
        (case onTrigger item of Some callback \<Rightarrow> callback app | None \<Rightarrow> app))
   \<and> (synthetic_event (gtkMenuItem item) \<longrightarrow> snd (on_activate item app) = app)
   \<and> synthetic_event (gtkMenuItem (fst (on_activate item app))) =
       synthetic_event (gtkMenuItem item)
   \<and> \<not> synthetic_event (gtkMenuItem (MenuItemImplGtk_new :: 'a MenuItemImplGtk))"
proof (intro conjI impI)
  assume r: "SetActive item a app = Inr (item', app')"
  then have s: "set_active item a app = (item', app')"
    by (simp add: SetActive_def split: if_splits)
  from s show "app' = app"
    by (auto simp add: set_active_eq split: if_splits)
  from s show "get_active (gtkMenuItem item') = a"
    by (auto simp add: set_active_eq split: if_splits)
  from s show "onTrigger item' = onTrigger item"
    by (auto simp add: set_active_eq split: if_splits)
  assume "\<not> synthetic_event (gtkMenuItem item)"
  with s show "\<not> synthetic_event (gtkMenuItem item')"
    by (auto simp add: set_active_eq split: if_splits)
next
  assume "has_indicator (gtkMenuItem item) \<and> get_active (gtkMenuItem item) = a"
  then show "SetActive item a app = Inr (item, app)"
    by (simp add: SetActive_def set_active_eq)
next
  assume "\<not> synthetic_event (gtkMenuItem item)"
  then show "snd (on_activate item app) =
        (case onTrigger item of Some callback \<Rightarrow> callback app | None \<Rightarrow> app)"
    by (simp add: on_activate_eq)
next
  assume "synthetic_event (gtkMenuItem item)"
  then show "snd (on_activate item app) = app"
    by (simp add: on_activate_eq)
qed (simp_all add: on_activate_eq MenuItemImplGtk_new_def GtkMenuItem_new_def)

text \<open>
  Claim C9 for an item with a check mark whose callback counts: \<open>SetActive\<close> checks the
  item and the count stays at 0, a \<open>SetActive\<close> to the state the item is in changes
  nothing, an activation by the user runs the callback once, and an activation marked
  synthetic does not run it.
\<close>

theorem SetActive_synthetic_witness:
  "SetActive (SetIndicator counting_item CHECK_MARK) True 0 =
     Inr ((SetIndicator counting_item CHECK_MARK)
            \<lparr>gtkMenuItem :=
               (gtkMenuItem (SetIndicator counting_item CHECK_MARK))\<lparr>get_active := True\<rparr>\<rparr>, 0)
   \<and> SetActive (SetIndicator counting_item CHECK_MARK) False 0 =
       Inr (SetIndicator counting_item CHECK_MARK, 0)
   \<and> \<not> synthetic_event (gtkMenuItem (SetIndicator counting_item CHECK_MARK))
   \<and> snd (on_activate (SetIndicator counting_item CHECK_MARK) 0) = 1
   \<and> snd (on_activate
            ((SetIndicator counting_item CHECK_MARK)
               \<lparr>gtkMenuItem :=
                  (gtkMenuItem (SetIndicator counting_item CHECK_MARK))
                    \<lparr>synthetic_event := True\<rparr>\<rparr>) 0) = 0"
proof -
  let ?item = "SetIndicator counting_item CHECK_MARK"
  let ?marked = "?item\<lparr>gtkMenuItem := (gtkMenuItem ?item)\<lparr>synthetic_event := True\<rparr>\<rparr>"
  have m: "synthetic_event (gtkMenuItem ?marked)"
    by simp
  have i: "has_indicator (gtkMenuItem ?item) \<and> get_active (gtkMenuItem ?item) = False"
    by (simp add: SetIndicator_def counting_item_def MenuItemImplGtk_new_def
        GtkMenuItem_new_def set_has_indicator_def set_draw_as_radio_def)
  have n: "\<not> synthetic_event (gtkMenuItem ?item)"
    by (simp add: SetIndicator_def counting_item_def MenuItemImplGtk_new_def
        GtkMenuItem_new_def set_has_indicator_def set_draw_as_radio_def)
  have t: "onTrigger ?item = Some Suc"
    by (simp add: SetIndicator_def counting_item_def)
  have r: "SetActive ?item True 0 =
      Inr (?item\<lparr>gtkMenuItem := (gtkMenuItem ?item)\<lparr>get_active := True\<rparr>\<rparr>, 0)"
    using i n by (simp add: SetActive_def set_active_eq)
  have k: "snd (on_activate ?marked 0) = 0"
    using m SetActive_synthetic [of ?marked False 0 ?marked 0]
    by blast
  show ?thesis
    using i n t r k
      SetActive_synthetic [of ?item True 0
        "?item\<lparr>gtkMenuItem := (gtkMenuItem ?item)\<lparr>get_active := True\<rparr>\<rparr>" 0]
      SetActive_synthetic [of ?item False 0 ?item 0]
    by simp
qed



end
